theory Spec2Isabelle
  imports Main "HOL-Library.AList" "HOL-Library.List_Lexorder" "HOL-Library.Char_ord"
begin

section \<open>Python values, exceptions and results\<close>

text \<open>
  The program is one Python 3 module, \<^verbatim>\<open>brother_ql_web.py\<close>. A Python \<^verbatim>\<open>str\<close> is
  modelled as a \<open>string\<close>, one \<open>char\<close> per character (so the model covers the strings
  whose characters are below U+0100), a Python \<^verbatim>\<open>int\<close> as \<open>int\<close>, \<^verbatim>\<open>bytes\<close> as a list of
  \<open>char\<close>. A call that may raise returns a sum: \<open>Raises e\<close> or \<open>Returns v\<close>.
\<close>

datatype exn_class =
    LookupError | KeyError | AttributeError | ValueError | OverflowError
  | TypeError | UnboundLocalError
  | LibraryError string

text \<open>
  \<open>Exn c a\<close> is an instance of class \<open>c\<close> built with the one argument \<open>a\<close>. Every class
  here derives from Python's \<^verbatim>\<open>Exception\<close>; \<open>LibraryError n\<close> is a class named \<open>n\<close> that a
  collaborator library defines.
\<close>

datatype exn = Exn exn_class string

type_synonym 'a outcome = "exn + 'a"

abbreviation Raises :: "exn \<Rightarrow> 'a outcome" where
  "Raises \<equiv> Inl"

abbreviation Returns :: "'a \<Rightarrow> 'a outcome" where
  "Returns \<equiv> Inr"

definition and_then :: "'a outcome \<Rightarrow> ('a \<Rightarrow> 'b outcome) \<Rightarrow> 'b outcome" where
  "and_then m f = (case m of Inl e \<Rightarrow> Inl e | Inr v \<Rightarrow> f v)"

fun class_name :: "exn_class \<Rightarrow> string" where
  "class_name LookupError = ''LookupError''"
| "class_name KeyError = ''KeyError''"
| "class_name AttributeError = ''AttributeError''"
| "class_name ValueError = ''ValueError''"
| "class_name OverflowError = ''OverflowError''"
| "class_name TypeError = ''TypeError''"
| "class_name UnboundLocalError = ''UnboundLocalError''"
| "class_name (LibraryError n) = n"

text \<open>\<^verbatim>\<open>except LookupError\<close> catches the class and its subclass \<^verbatim>\<open>KeyError\<close>.\<close>

fun is_LookupError :: "exn \<Rightarrow> bool" where
  "is_LookupError (Exn c a) = (c = LookupError \<or> c = KeyError)"

text \<open>
  \<^verbatim>\<open>e.msg\<close>: the built-in classes above keep their argument in \<^verbatim>\<open>e.args\<close> and have no
  attribute \<^verbatim>\<open>msg\<close>, so reading it raises \<^verbatim>\<open>AttributeError\<close>. The program reads it only from
  what \<^verbatim>\<open>except LookupError\<close> caught; a library's class is taken to have none either.
\<close>

fun exn_msg :: "exn \<Rightarrow> string outcome" where
  "exn_msg (Exn c a) =
     Raises (Exn AttributeError
       ([CHR 0x27] @ class_name c @ [CHR 0x27] @ '' object has no attribute ''
         @ [CHR 0x27] @ ''msg'' @ [CHR 0x27]))"

text \<open>The two errors of the runtime that the program can run into.\<close>

definition none_has_no :: "string \<Rightarrow> exn" where
  "none_has_no attr =
     Exn AttributeError
       ([CHR 0x27] @ ''NoneType'' @ [CHR 0x27] @ '' object has no attribute ''
         @ [CHR 0x27] @ attr @ [CHR 0x27])"

definition unbound_local :: "string \<Rightarrow> exn" where
  "unbound_local v =
     Exn UnboundLocalError
       (''local variable '' @ [CHR 0x27] @ v @ [CHR 0x27] @ '' referenced before assignment'')"

subsection \<open>Floats\<close>

text \<open>
  A Python \<^verbatim>\<open>float\<close> is an IEEE 754 double. \<open>Finite m e\<close> is the number \<open>m * 2 ^ e\<close>;
  the sign of zero is not kept, since the program only converts floats to \<^verbatim>\<open>int\<close>.
\<close>

datatype pyfloat = Finite int int | PosInf | NegInf | NaN

text \<open>\<^verbatim>\<open>int.bit_length\<close>: the number of binary digits of \<open>\<bar>n\<bar>\<close>.\<close>

function bit_length :: "int \<Rightarrow> nat" where
  "bit_length n = (if n = 0 then 0 else Suc (bit_length (\<bar>n\<bar> div 2)))"
  by pat_completeness auto
termination
  by (relation "measure (\<lambda>n. nat \<bar>n\<bar>)") auto

declare bit_length.simps [simp del]

text \<open>\<open>scaled_le q e a\<close> is \<open>q * 2 ^ e \<le> a\<close> for an exponent \<open>e\<close> of either sign.\<close>

definition scaled_le :: "int \<Rightarrow> int \<Rightarrow> int \<Rightarrow> bool" where
  "scaled_le q e a = (if 0 \<le> e then q * 2 ^ nat e \<le> a else q \<le> a * 2 ^ nat (- e))"

text \<open>
  \<open>round_ratio p q\<close>, for \<open>0 < q\<close>, is the double nearest to \<open>p / q\<close>, ties to the even
  significand: 53 bits of significand, the least exponent \<open>-1074\<close>, and an infinity
  once the rounded value reaches \<open>2 ^ 1024\<close>.
\<close>

definition round_ratio :: "int \<Rightarrow> int \<Rightarrow> pyfloat" where
  "round_ratio p q =
     (if p = 0 then Finite 0 0
      else
        let a = \<bar>p\<bar>;
            e0 = int (bit_length a) - int (bit_length q);
            e = (if scaled_le q e0 a then e0 else e0 - 1);
            u = max (e - 52) (- 1074);
            num = (if u < 0 then a * 2 ^ nat (- u) else a);
            den = (if u < 0 then q else q * 2 ^ nat u);
            m0 = num div den;
            r = num mod den;
            m = (if den < 2 * r \<or> (2 * r = den \<and> odd m0) then m0 + 1 else m0)
        in if 0 \<le> u \<and> 2 ^ 1024 \<le> m * 2 ^ nat u
           then (if p < 0 then NegInf else PosInf)
           else Finite (sgn p * m) u)"

text \<open>\<^verbatim>\<open>float(n)\<close> for an int: \<^verbatim>\<open>OverflowError\<close> when \<open>n\<close> is beyond the doubles.\<close>

definition float_of_int :: "int \<Rightarrow> pyfloat outcome" where
  "float_of_int n =
     (case round_ratio n 1 of
        Finite m e \<Rightarrow> Returns (Finite m e)
      | _ \<Rightarrow> Raises (Exn OverflowError ''int too large to convert to float''))"

text \<open>\<^verbatim>\<open>x / 100.0\<close>\<close>

fun float_div_100 :: "pyfloat \<Rightarrow> pyfloat" where
  "float_div_100 (Finite m e) =
     (if 0 \<le> e then round_ratio (m * 2 ^ nat e) 100
      else round_ratio m (100 * 2 ^ nat (- e)))"
| "float_div_100 x = x"

text \<open>\<^verbatim>\<open>x * y\<close> on two floats\<close>

fun float_sign :: "pyfloat \<Rightarrow> int" where
  "float_sign (Finite m e) = sgn m"
| "float_sign PosInf = 1"
| "float_sign NegInf = - 1"
| "float_sign NaN = 0"

fun float_mul :: "pyfloat \<Rightarrow> pyfloat \<Rightarrow> pyfloat" where
  "float_mul (Finite m1 e1) (Finite m2 e2) =
     (if 0 \<le> e1 + e2 then round_ratio (m1 * m2 * 2 ^ nat (e1 + e2)) 1
      else round_ratio (m1 * m2) (2 ^ nat (- (e1 + e2))))"
| "float_mul NaN y = NaN"
| "float_mul x NaN = NaN"
| "float_mul x y =
     (if float_sign x * float_sign y = 0 then NaN
      else if 0 < float_sign x * float_sign y then PosInf else NegInf)"

text \<open>\<^verbatim>\<open>n * y\<close> for an int \<open>n\<close> and a float \<open>y\<close>: the int is converted first.\<close>

definition int_mul_float :: "int \<Rightarrow> pyfloat \<Rightarrow> pyfloat outcome" where
  "int_mul_float n y = and_then (float_of_int n) (\<lambda>x. Returns (float_mul x y))"

text \<open>\<^verbatim>\<open>int(x)\<close> for a float: truncation towards zero.\<close>

fun int_of_float :: "pyfloat \<Rightarrow> int outcome" where
  "int_of_float (Finite m e) =
     Returns (if 0 \<le> e then m * 2 ^ nat e else sgn m * (\<bar>m\<bar> div 2 ^ nat (- e)))"
| "int_of_float NaN = Raises (Exn ValueError ''cannot convert float NaN to integer'')"
| "int_of_float x = Raises (Exn OverflowError ''cannot convert float infinity to integer'')"

subsection \<open>Strings\<close>

text \<open>
  \<^verbatim>\<open>s.rpartition(c)\<close> for a separator of one character: the part before the last \<open>c\<close>, the
  separator, the part after it; two empty strings and \<open>s\<close> when \<open>c\<close> does not occur.
\<close>

definition rpartition :: "char \<Rightarrow> string \<Rightarrow> string \<times> string \<times> string" where
  "rpartition c s =
     (if c \<in> set s
      then (rev (tl (dropWhile (\<lambda>x. x \<noteq> c) (rev s))), [c], rev (takeWhile (\<lambda>x. x \<noteq> c) (rev s)))
      else ([], [], s))"

text \<open>The characters below U+0100 that \<^verbatim>\<open>str.isspace\<close> accepts.\<close>

definition is_space :: "char \<Rightarrow> bool" where
  "is_space c = ((of_char c :: nat) \<in> {9, 10, 11, 12, 13, 28, 29, 30, 31, 32, 133, 160})"

definition strip :: "string \<Rightarrow> string" where
  "strip s = rev (dropWhile is_space (rev (dropWhile is_space s)))"

text \<open>\<^verbatim>\<open>s.rstrip(cs)\<close>: drop the trailing characters that occur in \<open>cs\<close>.\<close>

definition rstrip :: "string \<Rightarrow> string \<Rightarrow> string" where
  "rstrip cs s = rev (dropWhile (\<lambda>x. x \<in> set cs) (rev s))"

text \<open>\<^verbatim>\<open>sub in s\<close> on strings: \<open>sub\<close> occurs in \<open>s\<close> as a contiguous run.\<close>

fun starts_with :: "string \<Rightarrow> string \<Rightarrow> bool" where
  "starts_with [] s = True"
| "starts_with (c # cs) [] = False"
| "starts_with (c # cs) (x # xs) = (c = x \<and> starts_with cs xs)"

fun str_in :: "string \<Rightarrow> string \<Rightarrow> bool" where
  "str_in sub [] = (sub = [])"
| "str_in sub (x # xs) = (starts_with sub (x # xs) \<or> str_in sub xs)"

subsection \<open>Dynamically typed values\<close>

text \<open>
  What \<^verbatim>\<open>json.load\<close> and \<^verbatim>\<open>argparse\<close> hand to the program. A \<^verbatim>\<open>dict\<close> with string keys is an
  association list in insertion order.
\<close>

datatype pyval =
    PyNone | PyBool bool | PyInt int | PyFloat pyfloat | PyStr string
  | PyList "pyval list" | PyDict "(string \<times> pyval) list"

text \<open>The truth value of \<^verbatim>\<open>if v:\<close>.\<close>

fun truthy :: "pyval \<Rightarrow> bool" where
  "truthy PyNone = False"
| "truthy (PyBool b) = b"
| "truthy (PyInt n) = (n \<noteq> 0)"
| "truthy (PyFloat (Finite m e)) = (m \<noteq> 0)"
| "truthy (PyFloat x) = True"
| "truthy (PyStr s) = (s \<noteq> [])"
| "truthy (PyList vs) = (vs \<noteq> [])"
| "truthy (PyDict kvs) = (kvs \<noteq> [])"

text \<open>The truth value of a form field that is \<^verbatim>\<open>None\<close> or a \<^verbatim>\<open>str\<close>.\<close>

fun truthy_str :: "string option \<Rightarrow> bool" where
  "truthy_str None = False"
| "truthy_str (Some s) = (s \<noteq> [])"

text \<open>\<^verbatim>\<open>v[k]\<close> for a string key \<open>k\<close>.\<close>

fun getitem :: "pyval \<Rightarrow> string \<Rightarrow> pyval outcome" where
  "getitem (PyDict kvs) k =
     (case map_of kvs k of None \<Rightarrow> Raises (Exn KeyError k) | Some v \<Rightarrow> Returns v)"
| "getitem (PyList vs) k = Raises (Exn TypeError ''list indices must be integers or slices, not str'')"
| "getitem (PyStr s) k = Raises (Exn TypeError ''string indices must be integers'')"
| "getitem v k = Raises (Exn TypeError ''object is not subscriptable'')"

text \<open>\<^verbatim>\<open>v[k] = x\<close> for a string key \<open>k\<close>; the updated \<open>v\<close> is returned.\<close>

fun setitem :: "pyval \<Rightarrow> string \<Rightarrow> pyval \<Rightarrow> pyval outcome" where
  "setitem (PyDict kvs) k x = Returns (PyDict (AList.update k x kvs))"
| "setitem (PyList vs) k x = Raises (Exn TypeError ''list indices must be integers or slices, not str'')"
| "setitem v k x = Raises (Exn TypeError ''object does not support item assignment'')"

text \<open>\<^verbatim>\<open>v[s][k]\<close> and \<^verbatim>\<open>v[s][k] = x\<close>, as the program reads and writes \<^verbatim>\<open>CONFIG\<close>.\<close>

definition getitem2 :: "pyval \<Rightarrow> string \<Rightarrow> string \<Rightarrow> pyval outcome" where
  "getitem2 v s k = and_then (getitem v s) (\<lambda>d. getitem d k)"

definition setitem2 :: "pyval \<Rightarrow> string \<Rightarrow> string \<Rightarrow> pyval \<Rightarrow> pyval outcome" where
  "setitem2 v s k x =
     and_then (getitem v s) (\<lambda>d. and_then (setitem d k x) (\<lambda>d'. setitem v s d'))"

section \<open>The collaborators and the global state\<close>

text \<open>
  \<^verbatim>\<open>brother_ql.devicedependent\<close> is not part of the repository: its three label kinds are
  constructors (\<open>OTHER_LABEL\<close> stands for any further kind the library may define), and
  its table \<^verbatim>\<open>label_type_specs\<close> is a parameter of the model.
\<close>

datatype label_kind = ENDLESS_LABEL | DIE_CUT_LABEL | ROUND_DIE_CUT_LABEL | OTHER_LABEL

record label_spec =
  spec_name :: string
  spec_kind :: label_kind
  dots_printable :: "int \<times> int"

type_synonym bytes = "char list"

text \<open>A PIL font is the file and size it was loaded from; an image is its size and what was drawn.\<close>

type_synonym font = "string \<times> int"

datatype draw_op =
    MultilineText "int \<times> int" string "int \<times> int \<times> int" font string
  | Other string

record image =
  im_size :: "int \<times> int"
  im_drawn :: "draw_op list"

datatype rotate = Rotate0 | Rotate90 | RotateAuto

text \<open>The dictionary \<^verbatim>\<open>context\<close>; the key \<^verbatim>\<open>text\<close> is the field \<open>label_text\<close>.\<close>

record label_context =
  label_text :: "string option"
  font_size :: int
  font_family :: string
  font_style :: string
  label_size :: string
  kind :: label_kind
  margin :: int
  threshold :: int
  align :: string
  orientation :: string
  margin_top :: int
  margin_bottom :: int
  margin_left :: int
  margin_right :: int
  grocycode :: "string option"
  product :: "string option"
  duedate :: "string option"
  battery :: "string option"
  chore :: "string option"
  fill_color :: "int \<times> int \<times> int"
  font_path :: string
  width :: int
  height :: int

text \<open>
  \<open>env\<close> collects what the Python runtime and the libraries (PIL, brother_ql, the
  barcode encoders) answer. \<open>py_int\<close> and \<open>py_float\<close> are \<^verbatim>\<open>int(s)\<close> and \<^verbatim>\<open>float(s)\<close> on a
  \<^verbatim>\<open>str\<close>, \<open>None\<close> for \<^verbatim>\<open>ValueError\<close>; \<open>py_str\<close> is \<^verbatim>\<open>str(e)\<close>; \<open>str_bytes\<close> is \<^verbatim>\<open>str(b)\<close> on
  \<^verbatim>\<open>bytes\<close>. A library call that only acts answers \<open>None\<close> or the exception it raised.
\<close>

record env =
  label_type_specs :: "string \<rightharpoonup> label_spec"
  py_int :: "string \<Rightarrow> int option"
  py_float :: "string \<Rightarrow> pyfloat option"
  py_str :: "exn \<Rightarrow> string"
  str_bytes :: "bytes \<Rightarrow> string"
  environ :: "string \<rightharpoonup> string"
  truetype :: "string \<Rightarrow> int \<Rightarrow> exn option"
  getsize :: "font \<Rightarrow> string \<Rightarrow> (int \<times> int) outcome"
  multiline_textsize :: "font \<Rightarrow> string \<Rightarrow> (int \<times> int) outcome"
  image_new :: "int \<times> int \<Rightarrow> exn option"
  multiline_text :: "draw_op \<Rightarrow> exn option"
  draw_datamatrix :: "label_context \<Rightarrow> string option \<Rightarrow> exn option"
  draw_barcode :: "label_context \<Rightarrow> string option \<Rightarrow> image outcome"
  save_png :: "image \<Rightarrow> bytes outcome"
  save_file :: "image \<Rightarrow> string \<Rightarrow> exn option"
  BrotherQLRaster :: "pyval \<Rightarrow> exn option"
  create_label :: "pyval \<Rightarrow> image option \<Rightarrow> string \<Rightarrow> bool \<Rightarrow> int \<Rightarrow> rotate \<Rightarrow> bytes outcome"
  BACKEND_CLASS :: "pyval \<Rightarrow> exn option"
  be_write :: "pyval \<Rightarrow> bytes \<Rightarrow> exn option"
  be_dispose :: "pyval \<Rightarrow> exn option"

text \<open>
  \<^verbatim>\<open>FONTS\<close> maps a family to its styles and each style to a font file (it comes from
  \<^verbatim>\<open>font_helpers.get_fonts\<close>). The effects of a request on the outside (library calls that
  act, log records) are appended to \<open>trace\<close>.
\<close>

type_synonym fonts = "(string \<times> (string \<times> string) list) list"

datatype renderer = Label_im | Label_grocy | Label_grocy_1d

datatype event =
    Render renderer
  | Save_file string
  | Raster pyval
  | Create_label string bool int rotate
  | Backend_new pyval
  | Backend_write bytes
  | Backend_dispose
  | Log_warning exn
  | Log_error exn

record world =
  CONFIG :: pyval
  FONTS :: fonts
  LABEL_SIZES :: "(string \<times> string) list"
  DEBUG :: bool
  trace :: "event list"

definition emit :: "event \<Rightarrow> world \<Rightarrow> world" where
  "emit ev w = w\<lparr>trace := trace w @ [ev]\<rparr>"

record request =
  params :: "string \<rightharpoonup> string"
  query :: "string \<rightharpoonup> string"

section \<open>\<^verbatim>\<open>get_label_context\<close>\<close>

text \<open>\<^verbatim>\<open>d.get(key, default)\<close> and \<^verbatim>\<open>int(d.get(key, default))\<close> with an int default.\<close>

definition get_or :: "(string \<rightharpoonup> string) \<Rightarrow> string \<Rightarrow> string \<Rightarrow> string" where
  "get_or d k dflt = (case d k of None \<Rightarrow> dflt | Some s \<Rightarrow> s)"

definition int_field :: "env \<Rightarrow> (string \<rightharpoonup> string) \<Rightarrow> string \<Rightarrow> int \<Rightarrow> int outcome" where
  "int_field env d k dflt =
     (case d k of
        None \<Rightarrow> Returns dflt
      | Some s \<Rightarrow>
          (case py_int env s of
             None \<Rightarrow> Raises (Exn ValueError ''invalid literal for int() with base 10'')
           | Some n \<Rightarrow> Returns n))"

text \<open>\<^verbatim>\<open>float(d.get(key, 25)) / 100.0\<close>\<close>

definition percent_field :: "env \<Rightarrow> (string \<rightharpoonup> string) \<Rightarrow> string \<Rightarrow> pyfloat outcome" where
  "percent_field env d k =
     (case d k of
        None \<Rightarrow> and_then (float_of_int 25) (\<lambda>x. Returns (float_div_100 x))
      | Some s \<Rightarrow>
          (case py_float env s of
             None \<Rightarrow> Raises (Exn ValueError ''could not convert string to float'')
           | Some x \<Rightarrow> Returns (float_div_100 x)))"

text \<open>\<^verbatim>\<open>int(context["font_size"] * context["margin_top"])\<close>\<close>

definition scaled_margin :: "int \<Rightarrow> pyfloat \<Rightarrow> int outcome" where
  "scaled_margin n x = and_then (int_mul_float n x) int_of_float"

definition font_error :: exn where
  "font_error = Exn LookupError (''Couln'' @ [CHR 0x27] @ ''t find the font & style'')"

text \<open>\<^verbatim>\<open>FONTS[k]\<close> and \<^verbatim>\<open>FONTS[k][j]\<close> for keys of any type: only a \<^verbatim>\<open>str\<close> can be found.\<close>

fun lookup_key :: "(string \<times> 'a) list \<Rightarrow> pyval \<Rightarrow> 'a outcome" where
  "lookup_key kvs (PyStr k) =
     (case map_of kvs k of None \<Rightarrow> Raises (Exn KeyError k) | Some v \<Rightarrow> Returns v)"
| "lookup_key kvs (PyList vs) = Raises (Exn TypeError ''unhashable type: list'')"
| "lookup_key kvs (PyDict d) = Raises (Exn TypeError ''unhashable type: dict'')"
| "lookup_key kvs v = Raises (Exn KeyError [])"

fun is_KeyError :: "exn \<Rightarrow> bool" where
  "is_KeyError (Exn c a) = (c = KeyError)"

definition get_font_path :: "world \<Rightarrow> string option \<Rightarrow> string option \<Rightarrow> string outcome" where
  "get_font_path w font_family_name font_style_name =
     (case
        and_then
          (case (font_family_name, font_style_name) of
             (Some f, Some s) \<Rightarrow> Returns (PyStr f, PyStr s)
           | _ \<Rightarrow>
               and_then (and_then (getitem2 (CONFIG w) ''LABEL'' ''DEFAULT_FONTS'')
                           (\<lambda>df. getitem df ''family''))
                 (\<lambda>f. and_then (and_then (getitem2 (CONFIG w) ''LABEL'' ''DEFAULT_FONTS'')
                                  (\<lambda>df. getitem df ''style''))
                        (\<lambda>s. Returns (f, s))))
          (\<lambda>(f, s). and_then (lookup_key (FONTS w) f) (\<lambda>styles. lookup_key styles s))
      of
        Raises e \<Rightarrow> if is_KeyError e then Raises font_error else Raises e
      | Returns p \<Rightarrow> Returns p)"

definition get_label_dimensions :: "env \<Rightarrow> string \<Rightarrow> (int \<times> int) outcome" where
  "get_label_dimensions env size_name =
     (case label_type_specs env size_name of
        None \<Rightarrow> Raises (Exn LookupError ''Unknown label_size'')
      | Some ls \<Rightarrow> Returns (dots_printable ls))"

text \<open>Lines 120 to 125: the longer side is the width, and \<^verbatim>\<open>rotated\<close> swaps the two.\<close>

definition oriented :: "string \<Rightarrow> int \<times> int \<Rightarrow> int \<times> int" where
  "oriented orient dims =
     (let (w1, h1) = (if fst dims < snd dims then (snd dims, fst dims) else dims)
      in if orient = ''rotated'' then (h1, w1) else (w1, h1))"

definition get_label_context :: "env \<Rightarrow> world \<Rightarrow> request \<Rightarrow> label_context outcome" where
  "get_label_context env w req =
     (let d = params req in
      case d ''font_family'' of
        None \<Rightarrow> Raises (none_has_no ''rpartition'')
      | Some ff \<Rightarrow>
      let family = strip (fst (rpartition CHR ''('' ff));
          style = rstrip '')'' (snd (snd (rpartition CHR ''('' ff)))
      in
      and_then (int_field env d ''font_size'' 40) (\<lambda>fsize.
      and_then (case label_type_specs env (get_or d ''label_size'' ''50'') of
                  None \<Rightarrow> Raises (Exn KeyError (get_or d ''label_size'' ''50''))
                | Some ls \<Rightarrow> Returns (spec_kind ls)) (\<lambda>knd.
      and_then (int_field env d ''margin'' 10) (\<lambda>mrg.
      and_then (int_field env d ''threshold'' 70) (\<lambda>thr.
      and_then (percent_field env d ''margin_top'') (\<lambda>ftop.
      and_then (percent_field env d ''margin_bottom'') (\<lambda>fbottom.
      and_then (percent_field env d ''margin_left'') (\<lambda>fleft.
      and_then (percent_field env d ''margin_right'') (\<lambda>fright.
      and_then (scaled_margin fsize ftop) (\<lambda>mtop.
      and_then (scaled_margin fsize fbottom) (\<lambda>mbottom.
      and_then (scaled_margin fsize fleft) (\<lambda>mleft.
      and_then (scaled_margin fsize fright) (\<lambda>mright.
      and_then (get_font_path w (Some family) (Some style)) (\<lambda>path.
      and_then (get_label_dimensions env (get_or d ''label_size'' ''50'')) (\<lambda>dims.
      Returns \<lparr>
        label_text = d ''text'',
        font_size = fsize,
        font_family = family,
        font_style = style,
        label_size = get_or d ''label_size'' ''50'',
        kind = knd,
        margin = mrg,
        threshold = thr,
        align = get_or d ''align'' ''center'',
        orientation = get_or d ''orientation'' ''standard'',
        margin_top = mtop,
        margin_bottom = mbottom,
        margin_left = mleft,
        margin_right = mright,
        grocycode = d ''grocycode'',
        product = d ''product'',
        duedate = d ''due_date'',
        battery = d ''battery'',
        chore = d ''chore'',
        fill_color = (if str_in ''red'' (get_or d ''label_size'' ''50'')
                      then (255, 0, 0) else (0, 0, 0)),
        font_path = path,
        width = fst (oriented (get_or d ''orientation'' ''standard'') dims),
        height = snd (oriented (get_or d ''orientation'' ''standard'') dims)
      \<rparr>)))))))))))))))"

section \<open>Drawing the label\<close>

text \<open>\<^verbatim>\<open>s.split(c)\<close> for a separator of one character, and \<^verbatim>\<open>sep.join(ls)\<close>.\<close>

fun split_on :: "char \<Rightarrow> string \<Rightarrow> string list" where
  "split_on c [] = [[]]"
| "split_on c (x # xs) =
     (if x = c then [] # split_on c xs
      else (case split_on c xs of [] \<Rightarrow> [[x]] | l # ls \<Rightarrow> (x # l) # ls))"

fun join :: "string \<Rightarrow> string list \<Rightarrow> string" where
  "join sep [] = []"
| "join sep [l] = l"
| "join sep (l # ls) = l @ sep @ join sep ls"

text \<open>
  \<^verbatim>\<open>create_label_im(text, **kwargs)\<close>, called as \<^verbatim>\<open>create_label_im(**context)\<close>. The two
  throw-away objects of lines 133 and 134 are left out.
\<close>

definition create_label_im :: "env \<Rightarrow> string option \<Rightarrow> label_context \<Rightarrow> image outcome" where
  "create_label_im env txt kwargs =
     (let label_type = kind kwargs;
          im_font = (font_path kwargs, font_size kwargs)
      in
      case truetype env (font_path kwargs) (font_size kwargs) of
        Some e \<Rightarrow> Raises e
      | None \<Rightarrow>
      (case txt of
        None \<Rightarrow> Raises (none_has_no ''split'')
      | Some t0 \<Rightarrow>
      let t = join [CHR 0x0A]
                (map (\<lambda>line. if line = [] then '' '' else line) (split_on CHR 0x0A t0))
      in
      and_then (getsize env im_font t) (\<lambda>linesize.
      and_then (multiline_textsize env im_font t) (\<lambda>textsize.
      let wd = (if orientation kwargs = ''rotated'' \<and> label_type = ENDLESS_LABEL
                then fst textsize + margin_left kwargs + margin_right kwargs
                else width kwargs);
          ht = (if orientation kwargs = ''standard'' \<and> label_type = ENDLESS_LABEL
                then snd textsize + margin_top kwargs + margin_bottom kwargs
                else height kwargs)
      in
      case image_new env (wd, ht) of
        Some e \<Rightarrow> Raises e
      | None \<Rightarrow>
      and_then
        (if orientation kwargs = ''standard''
         then Returns
                (max ((wd - fst textsize) div 2) 0,
                 if label_type = DIE_CUT_LABEL \<or> label_type = ROUND_DIE_CUT_LABEL
                 then (ht - snd textsize) div 2
                        + (margin_top kwargs - margin_bottom kwargs) div 2
                 else margin_top kwargs)
         else if orientation kwargs = ''rotated''
         then Returns
                (if label_type = DIE_CUT_LABEL \<or> label_type = ROUND_DIE_CUT_LABEL
                 then max ((wd - fst textsize) div 2) 0
                 else margin_left kwargs,
                 (ht - snd textsize) div 2
                   + (margin_top kwargs - margin_bottom kwargs) div 2)
         else Raises (unbound_local ''horizontal_offset''))
        (\<lambda>offset.
           let drawn = MultilineText offset t (fill_color kwargs) im_font (align kwargs)
           in case multiline_text env drawn of
                Some e \<Rightarrow> Raises e
              | None \<Rightarrow> Returns \<lparr>im_size = (wd, ht), im_drawn = [drawn]\<rparr>)))))"

text \<open>The text of a grocy label: the product, else the chore, else the battery.\<close>

definition grocy_text :: "label_context \<Rightarrow> string option" where
  "grocy_text kwargs =
     (if truthy_str (product kwargs) then product kwargs
      else if truthy_str (chore kwargs) then chore kwargs
      else battery kwargs)"

text \<open>
  \<^verbatim>\<open>create_label_grocy\<close>: the encoding and drawing of lines 283 to 333 are one step of the
  libraries, \<open>draw_datamatrix\<close>. Line 335 then compares the method \<^verbatim>\<open>text_lines.count\<close> with
  \<open>1\<close>, which Python 3 refuses, so the function has no normal return.
\<close>

definition create_label_grocy :: "env \<Rightarrow> string option \<Rightarrow> label_context \<Rightarrow> image outcome" where
  "create_label_grocy env txt kwargs =
     (case draw_datamatrix env kwargs (grocy_text kwargs) of
        Some e \<Rightarrow> Raises e
      | None \<Rightarrow>
          Raises (Exn TypeError
            ([CHR 0x27, CHR ''>'', CHR 0x27] @ '' not supported between instances of ''
              @ [CHR 0x27] @ ''builtin_function_or_method'' @ [CHR 0x27] @ '' and ''
              @ [CHR 0x27] @ ''int'' @ [CHR 0x27])))"

text \<open>
  \<^verbatim>\<open>create_label_grocy_1d\<close>: the barcode and the drawing of lines 191 to 260 are one step
  of the libraries, \<open>draw_barcode\<close>; any exception is logged and \<^verbatim>\<open>None\<close> is returned.
\<close>

definition create_label_grocy_1d ::
    "env \<Rightarrow> string option \<Rightarrow> label_context \<Rightarrow> world \<Rightarrow> image option \<times> world" where
  "create_label_grocy_1d env txt kwargs w =
     (case draw_barcode env kwargs (grocy_text kwargs) of
        Raises e \<Rightarrow> (None, emit (Log_error e) w)
      | Returns im \<Rightarrow> (Some im, w))"

section \<open>The HTTP endpoints\<close>

subsection \<open>Pages\<close>

text \<open>
  \<^verbatim>\<open>index\<close> redirects; the result is the target. \<^verbatim>\<open>labeldesigner\<close> hands the template its
  data; the keys of \<^verbatim>\<open>FONTS\<close> are distinct, as those of a \<^verbatim>\<open>dict\<close> are.
\<close>

definition index :: "world \<Rightarrow> string \<times> world" where
  "index w = (''/labeldesigner'', w)"

record designer_page =
  font_family_names :: "string list"
  page_fonts :: fonts
  page_label_sizes :: "(string \<times> string) list"
  website :: pyval
  page_label :: pyval

definition labeldesigner :: "world \<Rightarrow> designer_page outcome \<times> world" where
  "labeldesigner w =
     (and_then (getitem (CONFIG w) ''WEBSITE'') (\<lambda>site.
      and_then (getitem (CONFIG w) ''LABEL'') (\<lambda>lbl.
      Returns \<lparr>
        font_family_names = sort (map fst (FONTS w)),
        page_fonts = FONTS w,
        page_label_sizes = LABEL_SIZES w,
        website = site,
        page_label = lbl
      \<rparr>)), w)"

subsection \<open>Preview\<close>

text \<open>
  \<^verbatim>\<open>base64.b64encode\<close> belongs to the standard library; it is modelled after RFC 4648:
  three bytes become four characters of the alphabet, a shorter last group is padded
  with \<open>=\<close>. \<open>b64decode\<close> is the strict inverse reading.
\<close>

definition b64_alphabet :: string where
  "b64_alphabet = ''ABCDEFGHIJKLMNOPQRSTUVWXYZabcdefghijklmnopqrstuvwxyz0123456789+/''"

definition b64_char :: "nat \<Rightarrow> char" where
  "b64_char i = b64_alphabet ! i"

fun b64encode :: "bytes \<Rightarrow> bytes" where
  "b64encode [] = []"
| "b64encode [x] =
     (let a = of_char x :: nat
      in [b64_char (a div 4), b64_char (a mod 4 * 16), CHR ''='', CHR ''=''])"
| "b64encode [x, y] =
     (let a = of_char x :: nat; b = of_char y :: nat
      in [b64_char (a div 4), b64_char (a mod 4 * 16 + b div 16),
          b64_char (b mod 16 * 4), CHR ''=''])"
| "b64encode (x # y # z # rest) =
     (let a = of_char x :: nat; b = of_char y :: nat; c = of_char z :: nat
      in [b64_char (a div 4), b64_char (a mod 4 * 16 + b div 16),
          b64_char (b mod 16 * 4 + c div 64), b64_char (c mod 64)] @ b64encode rest)"

fun index_of :: "char \<Rightarrow> string \<Rightarrow> nat option" where
  "index_of c [] = None"
| "index_of c (x # xs) =
     (if c = x then Some 0 else map_option Suc (index_of c xs))"

definition b64_value :: "char \<Rightarrow> nat option" where
  "b64_value c = index_of c b64_alphabet"

fun b64decode :: "bytes \<Rightarrow> bytes option" where
  "b64decode [] = Some []"
| "b64decode [p, q, r, s] =
     (case (b64_value p, b64_value q) of
        (Some i, Some j) \<Rightarrow>
          (if r = CHR ''='' \<and> s = CHR ''=''
           then (if j mod 16 = 0 then Some [char_of (i * 4 + j div 16)] else None)
           else
             (case b64_value r of
                None \<Rightarrow> None
              | Some k \<Rightarrow>
                  (if s = CHR ''=''
                   then (if k mod 4 = 0
                         then Some [char_of (i * 4 + j div 16), char_of (j mod 16 * 16 + k div 4)]
                         else None)
                   else
                     (case b64_value s of
                        None \<Rightarrow> None
                      | Some l \<Rightarrow>
                          Some [char_of (i * 4 + j div 16), char_of (j mod 16 * 16 + k div 4),
                                char_of (k mod 4 * 64 + l)]))))
      | _ \<Rightarrow> None)"
| "b64decode (p # q # r # s # rest) =
     (case (b64_value p, b64_value q, b64_value r, b64_value s) of
        (Some i, Some j, Some k, Some l) \<Rightarrow>
          map_option
            (\<lambda>bs. [char_of (i * 4 + j div 16), char_of (j mod 16 * 16 + k div 4),
                    char_of (k mod 4 * 64 + l)] @ bs)
            (b64decode rest)
      | _ \<Rightarrow> None)"
| "b64decode cs = None"

record http_response =
  content_type :: string
  body :: bytes

definition image_to_png_bytes :: "env \<Rightarrow> image \<Rightarrow> bytes outcome" where
  "image_to_png_bytes env im = save_png env im"

definition get_preview_image :: "env \<Rightarrow> request \<Rightarrow> world \<Rightarrow> http_response outcome \<times> world" where
  "get_preview_image env req w =
     (case get_label_context env w req of
        Raises e \<Rightarrow> (Raises e, w)
      | Returns ctx \<Rightarrow>
          (case create_label_im env (label_text ctx) ctx of
             Raises e \<Rightarrow> (Raises e, emit (Render Label_im) w)
           | Returns im \<Rightarrow>
               (if get_or (query req) ''return_format'' ''png'' = ''base64''
                then and_then (image_to_png_bytes env im)
                       (\<lambda>b. Returns \<lparr>content_type = ''text/plain'', body = b64encode b\<rparr>)
                else and_then (image_to_png_bytes env im)
                       (\<lambda>b. Returns \<lparr>content_type = ''image/png'', body = b\<rparr>),
                emit (Render Label_im) w)))"

subsection \<open>Printing\<close>

text \<open>The dictionary \<^verbatim>\<open>return_dict\<close>: an absent key is \<open>None\<close>.\<close>

record return_dict =
  success :: bool
  error :: "string option"
  message :: "string option"
  data :: "string option"

definition failure :: return_dict where
  "failure = \<lparr>success = False, error = None, message = None, data = None\<rparr>"

text \<open>
  The handler of \<^verbatim>\<open>except LookupError as e\<close> (lines 397 to 399 and 471 to 473): it reads
  \<^verbatim>\<open>e.msg\<close>. Any other exception of \<^verbatim>\<open>get_label_context\<close> leaves the endpoint.
\<close>

definition on_context_error :: "exn \<Rightarrow> world \<Rightarrow> return_dict outcome \<times> world" where
  "on_context_error e w =
     (if is_LookupError e
      then (and_then (exn_msg e) (\<lambda>m. Returns (failure\<lparr>error := Some m\<rparr>)), w)
      else (Raises e, w))"

text \<open>Lines 483 to 486 (419 to 422): \<^verbatim>\<open>rotate\<close> stays unbound for any other kind.\<close>

definition rotate_for :: "label_context \<Rightarrow> rotate option" where
  "rotate_for ctx =
     (if kind ctx = ENDLESS_LABEL
      then Some (if orientation ctx = ''standard'' then Rotate0 else Rotate90)
      else if kind ctx = ROUND_DIE_CUT_LABEL \<or> kind ctx = DIE_CUT_LABEL
      then Some RotateAuto
      else None)"

text \<open>
  The body of the \<^verbatim>\<open>try\<close> of lines 504 to 507 (440 to 443): the exception it raised,
  if any, and the world after it.
\<close>

definition transport :: "env \<Rightarrow> bytes \<Rightarrow> world \<Rightarrow> exn option \<times> world" where
  "transport env qlr_data w =
     (case getitem2 (CONFIG w) ''PRINTER'' ''PRINTER'' of
        Raises e \<Rightarrow> (Some e, w)
      | Returns p \<Rightarrow>
          (case BACKEND_CLASS env p of
             Some e \<Rightarrow> (Some e, emit (Backend_new p) w)
           | None \<Rightarrow>
               (case be_write env p qlr_data of
                  Some e \<Rightarrow> (Some e, emit (Backend_write qlr_data) (emit (Backend_new p) w))
                | None \<Rightarrow>
                    (be_dispose env p,
                     emit Backend_dispose
                       (emit (Backend_write qlr_data) (emit (Backend_new p) w))))))"

text \<open>
  Lines 480 to 516 of \<^verbatim>\<open>print_text\<close>, which \<^verbatim>\<open>print_grocy\<close> repeats as lines 416 to 452,
  in three steps. First \<^verbatim>\<open>if DEBUG: im.save("sample-out.png")\<close>, where the image is \<^verbatim>\<open>None\<close>
  when \<^verbatim>\<open>create_label_grocy_1d\<close> failed.
\<close>

definition save_sample :: "env \<Rightarrow> image option \<Rightarrow> world \<Rightarrow> exn option \<times> world" where
  "save_sample env im w =
     (if DEBUG w
      then (case im of
              None \<Rightarrow> (Some (none_has_no ''save''), w)
            | Some i \<Rightarrow>
                (save_file env i ''sample-out.png'', emit (Save_file ''sample-out.png'') w))
      else (None, w))"

text \<open>Lines 483 to 500 (419 to 436): the raster builder; the result is \<^verbatim>\<open>qlr.data\<close>.\<close>

definition build_raster ::
    "env \<Rightarrow> label_context \<Rightarrow> image option \<Rightarrow> world \<Rightarrow> bytes outcome \<times> world" where
  "build_raster env ctx im w =
     (case getitem2 (CONFIG w) ''PRINTER'' ''MODEL'' of
        Raises e \<Rightarrow> (Raises e, w)
      | Returns mdl \<Rightarrow>
          (case BrotherQLRaster env mdl of
             Some e \<Rightarrow> (Raises e, emit (Raster mdl) w)
           | None \<Rightarrow>
               (let red = str_in ''red'' (label_size ctx) in
                case rotate_for ctx of
                  None \<Rightarrow> (Raises (unbound_local ''rotate''), emit (Raster mdl) w)
                | Some rot \<Rightarrow>
                    (create_label env mdl im (label_size ctx) red (threshold ctx) rot,
                     emit (Create_label (label_size ctx) red (threshold ctx) rot)
                       (emit (Raster mdl) w)))))"

text \<open>Lines 502 to 516 (438 to 452): the transport and the reply.\<close>

definition deliver :: "env \<Rightarrow> bytes \<Rightarrow> world \<Rightarrow> return_dict outcome \<times> world" where
  "deliver env qlr_data w =
     (if \<not> DEBUG w
      then (case transport env qlr_data w of
              (Some e, w1) \<Rightarrow>
                (Returns (failure\<lparr>message := Some (py_str env e)\<rparr>), emit (Log_warning e) w1)
            | (None, w1) \<Rightarrow> (Returns (failure\<lparr>success := True\<rparr>), w1))
      else (Returns (failure\<lparr>success := True, data := Some (str_bytes env qlr_data)\<rparr>), w))"

definition send_image ::
    "env \<Rightarrow> label_context \<Rightarrow> image option \<Rightarrow> world \<Rightarrow> return_dict outcome \<times> world" where
  "send_image env ctx im w =
     (case save_sample env im w of
        (Some e, w1) \<Rightarrow> (Raises e, w1)
      | (None, w1) \<Rightarrow>
          (case build_raster env ctx im w1 of
             (Raises e, w2) \<Rightarrow> (Raises e, w2)
           | (Returns qlr_data, w2) \<Rightarrow> deliver env qlr_data w2))"

definition print_text :: "env \<Rightarrow> request \<Rightarrow> world \<Rightarrow> return_dict outcome \<times> world" where
  "print_text env req w =
     (case get_label_context env w req of
        Raises e \<Rightarrow> on_context_error e w
      | Returns ctx \<Rightarrow>
          (if label_text ctx = None
           then (Returns (failure\<lparr>error := Some ''Please provide the text for the label''\<rparr>), w)
           else
             (case create_label_im env (label_text ctx) ctx of
                Raises e \<Rightarrow> (Raises e, emit (Render Label_im) w)
              | Returns im \<Rightarrow> send_image env ctx (Some im) (emit (Render Label_im) w))))"

definition print_grocy :: "env \<Rightarrow> request \<Rightarrow> world \<Rightarrow> return_dict outcome \<times> world" where
  "print_grocy env req w =
     (case get_label_context env w req of
        Raises e \<Rightarrow> on_context_error e w
      | Returns ctx \<Rightarrow>
          (if product ctx = None \<and> truthy_str (battery ctx) \<and> truthy_str (chore ctx)
           then (Returns (failure\<lparr>error :=
                   Some ''Please provide the product/battery/chore for the label''\<rparr>), w)
           else
             (if environ env ''Code128'' = Some ''1''
              then
                (case create_label_grocy_1d env (label_text ctx) ctx
                        (emit (Render Label_grocy_1d) w) of
                   (im, w1) \<Rightarrow> send_image env ctx im w1)
              else
                (case create_label_grocy env (label_text ctx) ctx of
                   Raises e \<Rightarrow> (Raises e, emit (Render Label_grocy) w)
                 | Returns im \<Rightarrow> send_image env ctx (Some im) (emit (Render Label_grocy) w)))))"

section \<open>\<^verbatim>\<open>main\<close>: the command line over the configuration file\<close>

text \<open>
  The namespace that \<^verbatim>\<open>parse_args\<close> returns: every argument has the default \<^verbatim>\<open>False\<close>,
  so an omitted one is \<open>PyBool False\<close>.
\<close>

record args =
  port :: pyval
  loglevel :: pyval
  font_folder :: pyval
  default_label_size :: pyval
  default_orientation :: pyval
  model :: pyval
  printer :: pyval

record settings =
  config :: pyval
  PORT :: pyval
  LOGLEVEL :: pyval
  debug :: bool
  ADDITIONAL_FONT_FOLDER :: pyval

text \<open>\<^verbatim>\<open>v == 10\<close>\<close>

fun equals_ten :: "pyval \<Rightarrow> bool" where
  "equals_ten (PyInt n) = (n = 10)"
| "equals_ten (PyFloat (Finite m e)) =
     (if 0 \<le> e then m * 2 ^ nat e = 10 else m = 10 * 2 ^ nat (- e))"
| "equals_ten v = False"

text \<open>\<^verbatim>\<open>if a: c[s][k] = a\<close> and \<^verbatim>\<open>a if a else c[s][k]\<close>\<close>

definition into_config :: "pyval \<Rightarrow> pyval \<Rightarrow> string \<Rightarrow> string \<Rightarrow> pyval outcome" where
  "into_config a c s k = (if truthy a then setitem2 c s k a else Returns c)"

definition from_args_or :: "pyval \<Rightarrow> pyval \<Rightarrow> string \<Rightarrow> string \<Rightarrow> pyval outcome" where
  "from_args_or a c s k = (if truthy a then Returns a else getitem2 c s k)"

text \<open>Lines 554 to 584 of \<^verbatim>\<open>main\<close>, from the parsed arguments to the settings in force.\<close>

definition main_settings :: "args \<Rightarrow> pyval \<Rightarrow> settings outcome" where
  "main_settings a c0 =
     and_then (into_config (printer a) c0 ''PRINTER'' ''PRINTER'') (\<lambda>c1.
     and_then (from_args_or (port a) c1 ''SERVER'' ''PORT'') (\<lambda>prt.
     and_then (from_args_or (loglevel a) c1 ''SERVER'' ''LOGLEVEL'') (\<lambda>lvl.
     and_then (into_config (model a) c1 ''PRINTER'' ''MODEL'') (\<lambda>c2.
     and_then (into_config (default_label_size a) c2 ''LABEL'' ''DEFAULT_SIZE'') (\<lambda>c3.
     and_then (into_config (default_orientation a) c3 ''LABEL'' ''DEFAULT_ORIENTATION'') (\<lambda>c4.
     and_then (from_args_or (font_folder a) c4 ''SERVER'' ''ADDITIONAL_FONT_FOLDER'') (\<lambda>folder.
     Returns \<lparr>
       config = c4,
       PORT = prt,
       LOGLEVEL = lvl,
       debug = equals_ten lvl,
       ADDITIONAL_FONT_FOLDER = folder
     \<rparr>)))))))"

section \<open>Notions the properties are stated with\<close>

text \<open>The events a step appended: those of \<open>w'\<close> beyond the trace of \<open>w\<close>.\<close>

definition events_of :: "world \<Rightarrow> world \<Rightarrow> event list" where
  "events_of w w' = drop (length (trace w)) (trace w')"

definition extended :: "world \<Rightarrow> event list \<Rightarrow> world" where
  "extended w evs = w\<lparr>trace := trace w @ evs\<rparr>"

fun is_write :: "event \<Rightarrow> bool" where
  "is_write (Backend_write d) = True"
| "is_write ev = False"

text \<open>What one run of the transport step can append, and the reply that goes with it.\<close>

definition delivered :: "env \<Rightarrow> pyval \<Rightarrow> bytes \<Rightarrow> return_dict outcome \<Rightarrow> event list \<Rightarrow> bool" where
  "delivered env cfg d r evs =
     ((\<exists>rd. r = Returns rd \<and> error rd = None)
      \<and> (\<forall>ev \<in> set evs. ev = Backend_write d \<or> ev = Backend_dispose
             \<or> (\<exists>p. ev = Backend_new p) \<or> (\<exists>e. ev = Log_warning e))
      \<and> length (filter is_write evs) \<le> 1
      \<and> (\<forall>p e. getitem2 cfg ''PRINTER'' ''PRINTER'' = Returns p \<longrightarrow> be_write env p d = Some e
            \<longrightarrow> Backend_write d \<in> set evs
            \<longrightarrow> r = Returns (failure\<lparr>message := Some (py_str env e)\<rparr>)
                \<and> evs = [Backend_new p, Backend_write d, Log_warning e]))"

text \<open>What one request may append to the trace, given its reply.\<close>

definition sent :: "env \<Rightarrow> pyval \<Rightarrow> string \<Rightarrow> return_dict outcome \<Rightarrow> event list \<Rightarrow> bool" where
  "sent env cfg size_name r evs =
     (length (filter is_write evs) \<le> 1
      \<and> (\<forall>l rd t rot. Create_label l rd t rot \<in> set evs
            \<longrightarrow> l = size_name \<and> rd = str_in ''red'' size_name)
      \<and> (\<forall>d p e. getitem2 cfg ''PRINTER'' ''PRINTER'' = Returns p \<longrightarrow> be_write env p d = Some e
            \<longrightarrow> Backend_write d \<in> set evs
            \<longrightarrow> r = Returns (failure\<lparr>message := Some (py_str env e)\<rparr>)
                \<and> (\<exists>pre. evs = pre @ [Backend_write d, Log_warning e]
                       \<and> filter is_write pre = [])))"

text \<open>The reply of \<^verbatim>\<open>print_grocy\<close> when a product, battery or chore is missing.\<close>

definition grocy_missing :: return_dict where
  "grocy_missing =
     \<lparr>success = False,
      error = Some ''Please provide the product/battery/chore for the label'',
      message = None, data = None\<rparr>"

text \<open>Two worlds with the same globals, and a world the requests cannot tell from another.\<close>

definition same_globals :: "world \<Rightarrow> world \<Rightarrow> bool" where
  "same_globals w1 w2 \<longleftrightarrow>
     CONFIG w1 = CONFIG w2 \<and> FONTS w1 = FONTS w2 \<and> LABEL_SIZES w1 = LABEL_SIZES w2
     \<and> DEBUG w1 = DEBUG w2"

definition unaffected :: "world \<Rightarrow> world \<Rightarrow> bool" where
  "unaffected w w' \<longleftrightarrow>
     CONFIG w' = CONFIG w \<and> FONTS w' = FONTS w \<and> LABEL_SIZES w' = LABEL_SIZES w
     \<and> (\<forall>env req.
           fst (labeldesigner w') = fst (labeldesigner w)
           \<and> fst (get_preview_image env req w') = fst (get_preview_image env req w)
           \<and> fst (print_text env req w') = fst (print_text env req w)
           \<and> fst (print_grocy env req w') = fst (print_grocy env req w))"

text \<open>The form fields that \<^verbatim>\<open>get_label_context\<close> reads with a default.\<close>

definition optional_fields :: "string set" where
  "optional_fields =
     {''font_size'', ''label_size'', ''margin'', ''threshold'', ''align'', ''orientation'',
      ''margin_top'', ''margin_bottom'', ''margin_left'', ''margin_right''}"

section \<open>A sample installation\<close>

text \<open>
  One table of labels, one font and one configuration, with libraries that succeed:
  the instances of the theorems below are evaluated in it.
\<close>

definition sample_specs :: "(string \<times> label_spec) list" where
  "sample_specs =
     [(''50'', \<lparr>spec_name = ''50mm endless'', spec_kind = ENDLESS_LABEL,
               dots_printable = (554, 0)\<rparr>),
      (''62red'', \<lparr>spec_name = ''62mm endless (black/red/white)'', spec_kind = ENDLESS_LABEL,
                  dots_printable = (696, 0)\<rparr>),
      (''29x90'', \<lparr>spec_name = ''29mm x 90mm die-cut'', spec_kind = DIE_CUT_LABEL,
                  dots_printable = (306, 991)\<rparr>)]"

definition sample_env :: env where
  "sample_env = \<lparr>
     label_type_specs = map_of sample_specs,
     py_int = map_of [(''40'', 40), (''12'', 12)],
     py_float = map_of [(''25'', Finite 25 0)],
     py_str = (\<lambda>e. case e of Exn c a \<Rightarrow> a),
     str_bytes = (\<lambda>b. b),
     environ = Map.empty,
     truetype = (\<lambda>path n. None),
     getsize = (\<lambda>f t. Returns (8 * int (length t), 16)),
     multiline_textsize = (\<lambda>f t. Returns (8 * int (length t), 16)),
     image_new = (\<lambda>sz. None),
     multiline_text = (\<lambda>drawn. None),
     draw_datamatrix = (\<lambda>ctx t. None),
     draw_barcode =
       (\<lambda>ctx t. Returns \<lparr>im_size = (width ctx, 130), im_drawn = [Other ''barcode'']\<rparr>),
     save_png = (\<lambda>im. Returns ''PNG''),
     save_file = (\<lambda>im name. None),
     BrotherQLRaster = (\<lambda>m. None),
     create_label = (\<lambda>m im l red t rot. Returns ''RASTER''),
     BACKEND_CLASS = (\<lambda>p. None),
     be_write = (\<lambda>p b. None),
     be_dispose = (\<lambda>p. None)
   \<rparr>"

definition sample_config :: pyval where
  "sample_config =
     PyDict
       [(''SERVER'', PyDict [(''PORT'', PyInt 8013), (''HOST'', PyStr []),
                             (''LOGLEVEL'', PyStr ''WARNING''),
                             (''ADDITIONAL_FONT_FOLDER'', PyBool False)]),
        (''PRINTER'', PyDict [(''MODEL'', PyStr ''QL-500''),
                              (''PRINTER'', PyStr ''file:///dev/usb/lp1'')]),
        (''LABEL'', PyDict [(''DEFAULT_SIZE'', PyStr ''62''),
                            (''DEFAULT_ORIENTATION'', PyStr ''standard''),
                            (''DEFAULT_FONTS'', PyDict [(''family'', PyStr ''DejaVu Sans''),
                                                        (''style'', PyStr ''Book'')])]),
        (''WEBSITE'', PyDict [(''HTML_TITLE'', PyStr ''Label Designer'')])]"

definition sample_world :: world where
  "sample_world = \<lparr>
     CONFIG = sample_config,
     FONTS = [(''DejaVu Sans'', [(''Book'', ''/usr/share/fonts/DejaVuSans.ttf'')])],
     LABEL_SIZES = map (\<lambda>(n, s). (n, spec_name s)) sample_specs,
     DEBUG = False,
     trace = []
   \<rparr>"

definition form :: "(string \<times> string) list \<Rightarrow> request" where
  "form kvs = \<lparr>params = map_of kvs, query = Map.empty\<rparr>"

text \<open>The same installation with a printer that cannot be written to, and a request.\<close>

definition offline_env :: env where
  "offline_env = sample_env\<lparr>be_write := (\<lambda>p b. Some (Exn (LibraryError ''OSError'') ''Device not found''))\<rparr>"

definition hello :: request where
  "hello = form [(''font_family'', ''DejaVu Sans (Book)''), (''text'', ''Hello'')]"

text \<open>Further requests.\<close>

definition red_label :: request where
  "red_label = form [(''font_family'', ''DejaVu Sans (Book)''), (''text'', ''Hello''),
                     (''label_size'', ''62red'')]"

definition unknown_font :: request where
  "unknown_font = form [(''font_family'', ''Comic Sans (Bold)''), (''text'', ''Hello'')]"

definition unknown_size :: request where
  "unknown_size = form [(''font_family'', ''DejaVu Sans (Book)''), (''text'', ''Hello''),
                        (''label_size'', ''99'')]"

definition no_product :: request where
  "no_product = form [(''font_family'', ''DejaVu Sans (Book)''), (''grocycode'', ''grcy:p:1'')]"

definition two_of_three :: request where
  "two_of_three = form [(''font_family'', ''DejaVu Sans (Book)''), (''battery'', ''AA''),
                        (''chore'', ''Dishes'')]"

text \<open>The request \<open>hello\<close> asking for a preview in base64.\<close>

definition hello_base64 :: request where
  "hello_base64 =
     \<lparr>params = map_of [(''font_family'', ''DejaVu Sans (Book)''), (''text'', ''Hello''),
                        (''return_format'', ''base64'')],
      query = map_of [(''return_format'', ''base64'')]\<rparr>"

text \<open>Command lines: no argument at all, and two more.\<close>

definition no_args :: args where
  "no_args = \<lparr>port = PyBool False, loglevel = PyBool False, font_folder = PyBool False,
     default_label_size = PyBool False, default_orientation = PyBool False,
     model = PyBool False, printer = PyBool False\<rparr>"

text \<open>\<^verbatim>\<open>brother_ql_web.py --loglevel NOTSET ""\<close>: an empty printer string, and the level 0.\<close>

definition falsy_args :: args where
  "falsy_args = no_args\<lparr>loglevel := PyInt 0, printer := PyStr []\<rparr>"

text \<open>\<^verbatim>\<open>brother_ql_web.py --port 8080 --loglevel DEBUG --model QL-800 tcp://10.0.0.5:9100\<close>\<close>

definition some_args :: args where
  "some_args = no_args\<lparr>port := PyStr ''8080'', loglevel := PyInt 10, model := PyStr ''QL-800'',
     printer := PyStr ''tcp://10.0.0.5:9100''\<rparr>"

text \<open>The label context of the sample font with every other field at its default.\<close>

definition sample_context ::
    "string \<Rightarrow> string \<Rightarrow> label_kind \<Rightarrow> int \<Rightarrow> int \<Rightarrow> string option \<Rightarrow> label_context" where
  "sample_context size_name orient k wd ht txt = \<lparr>
     label_text = txt, font_size = 40, font_family = ''DejaVu Sans'', font_style = ''Book'',
     label_size = size_name, kind = k, margin = 10, threshold = 70, align = ''center'',
     orientation = orient, margin_top = 10, margin_bottom = 10, margin_left = 10,
     margin_right = 10, grocycode = None, product = None, duedate = None, battery = None,
     chore = None,
     fill_color = (if size_name = ''62red'' then (255, 0, 0) else (0, 0, 0)),
     font_path = ''/usr/share/fonts/DejaVuSans.ttf'', width = wd, height = ht\<rparr>"

section \<open>Properties\<close>

subsection \<open>Auxiliary facts\<close>

lemma and_then_Returns:
  "and_then m f = Returns y \<longleftrightarrow> (\<exists>v. m = Returns v \<and> f v = Returns y)"
  by (cases m) (simp_all add: and_then_def)

lemma and_then_simps [simp]:
  "and_then (Raises e) f = Raises e"
  "and_then (Returns v) f = f v"
  by (simp_all add: and_then_def)

lemma get_label_context_Returns:
  assumes "get_label_context env w req = Returns ctx"
  shows "label_size ctx = get_or (params req) ''label_size'' ''50''"
    and "orientation ctx = get_or (params req) ''orientation'' ''standard''"
    and "align ctx = get_or (params req) ''align'' ''center''"
    and "\<exists>ls. label_type_specs env (label_size ctx) = Some ls \<and> kind ctx = spec_kind ls
            \<and> width ctx = fst (oriented (orientation ctx) (dots_printable ls))
            \<and> height ctx = snd (oriented (orientation ctx) (dots_printable ls))"
    and "fill_color ctx = (if str_in ''red'' (label_size ctx) then (255, 0, 0) else (0, 0, 0))"
    and "label_text ctx = params req ''text''"
    and "product ctx = params req ''product''"
    and "battery ctx = params req ''battery''"
    and "chore ctx = params req ''chore''"
  using assms
  by (auto simp: get_label_context_def Let_def and_then_Returns get_label_dimensions_def
      split: option.splits)

lemma oriented_standard:
  "orient \<noteq> ''rotated'' \<Longrightarrow> snd (oriented orient dims) \<le> fst (oriented orient dims)"
  by (cases dims) (simp add: oriented_def)

lemma oriented_rotated: "fst (oriented ''rotated'' dims) \<le> snd (oriented ''rotated'' dims)"
  by (cases dims) (simp add: oriented_def)

lemma oriented_swap:
  "orient \<noteq> ''rotated'' \<Longrightarrow>
   oriented ''rotated'' dims = (snd (oriented orient dims), fst (oriented orient dims))"
  by (cases dims) (simp add: oriented_def)

lemma default_percent:
  "and_then (float_of_int 25) (\<lambda>x. Returns (float_div_100 x))
   = Returns (Finite 4503599627370496 (- 54))"
  by code_simp

lemma default_margin: "scaled_margin 40 (Finite 4503599627370496 (- 54)) = Returns 10"
  by code_simp

lemma sample_standard:
  "get_label_context sample_env sample_world
     (form [(''font_family'', ''DejaVu Sans (Book)''), (''label_size'', ''29x90'')])
   = Returns (sample_context ''29x90'' ''standard'' DIE_CUT_LABEL 991 306 None)"
  by code_simp

lemma sample_rotated:
  "get_label_context sample_env sample_world
     (form [(''font_family'', ''DejaVu Sans (Book)''), (''label_size'', ''29x90''),
            (''orientation'', ''rotated'')])
   = Returns (sample_context ''29x90'' ''rotated'' DIE_CUT_LABEL 306 991 None)"
  by code_simp

lemma sample_font:
  "get_font_path sample_world
     (Some (strip (fst (rpartition CHR ''('' ''DejaVu Sans (Book)''))))
     (Some (rstrip '')'' (snd (snd (rpartition CHR ''('' ''DejaVu Sans (Book)'')))))
   = Returns ''/usr/share/fonts/DejaVuSans.ttf''"
  by code_simp

subsection \<open>The events of a request\<close>

lemma extended_simps [simp]:
  "CONFIG (extended w evs) = CONFIG w"
  "FONTS (extended w evs) = FONTS w"
  "LABEL_SIZES (extended w evs) = LABEL_SIZES w"
  "DEBUG (extended w evs) = DEBUG w"
  "trace (extended w evs) = trace w @ evs"
  "events_of w (extended w evs) = evs"
  "extended (extended w evs) evs' = extended w (evs @ evs')"
  "emit ev (extended w evs) = extended w (evs @ [ev])"
  by (simp_all add: extended_def events_of_def emit_def)

lemma extended_Nil: "w = extended w []"
  by (simp add: extended_def)

lemma emit_extended: "emit ev w = extended w [ev]"
  by (simp add: extended_def emit_def)

lemma transport_cases:
  assumes "transport env d w = (r, w')"
  shows "(\<exists>e. getitem2 (CONFIG w) ''PRINTER'' ''PRINTER'' = Raises e \<and> r = Some e \<and> w' = w)
    \<or> (\<exists>p. getitem2 (CONFIG w) ''PRINTER'' ''PRINTER'' = Returns p \<and>
          ((\<exists>e. BACKEND_CLASS env p = Some e \<and> r = Some e
                \<and> w' = extended w [Backend_new p])
         \<or> (\<exists>e. BACKEND_CLASS env p = None \<and> be_write env p d = Some e \<and> r = Some e
                \<and> w' = extended w [Backend_new p, Backend_write d])
         \<or> (BACKEND_CLASS env p = None \<and> be_write env p d = None \<and> r = be_dispose env p
                \<and> w' = extended w [Backend_new p, Backend_write d, Backend_dispose])))"
  using assms
  by (auto simp: transport_def emit_def extended_def split: sum.splits option.splits)

lemma save_sample_cases:
  assumes "save_sample env im w = (r, w')"
  shows "w' = w \<or> w' = extended w [Save_file ''sample-out.png'']"
  using assms
  by (auto simp: save_sample_def emit_extended split: if_splits option.splits)

lemma build_raster_cases:
  assumes "build_raster env ctx im w = (r, w')"
  shows "w' = w \<or> (\<exists>m. w' = extended w [Raster m])
    \<or> (\<exists>m t rot. w' = extended w
           [Raster m, Create_label (label_size ctx) (str_in ''red'' (label_size ctx)) t rot])"
  using assms
  by (auto simp: build_raster_def emit_extended Let_def split: sum.splits option.splits)


lemma deliver_debug:
  "DEBUG w \<Longrightarrow> deliver env d w =
     (Returns (failure\<lparr>success := True, data := Some (str_bytes env d)\<rparr>), w)"
  by (simp add: deliver_def)

lemma deliver_transport:
  "\<not> DEBUG w \<Longrightarrow> transport env d w = (t, w1) \<Longrightarrow>
   deliver env d w =
     (case t of
        Some e \<Rightarrow> (Returns (failure\<lparr>message := Some (py_str env e)\<rparr>), emit (Log_warning e) w1)
      | None \<Rightarrow> (Returns (failure\<lparr>success := True\<rparr>), w1))"
  by (cases t) (simp_all add: deliver_def)

lemma deliver_cases:
  assumes "deliver env d w = (r, w')"
  shows "\<exists>evs. w' = extended w evs \<and> delivered env (CONFIG w) d r evs"
proof (cases "DEBUG w")
  case True
  then have "r = Returns (failure\<lparr>success := True, data := Some (str_bytes env d)\<rparr>)" "w' = extended w []"
    using assms by (simp_all add: deliver_debug extended_def)
  then show ?thesis
    by (intro exI[of _ "[]"]) (simp add: delivered_def failure_def)
next
  case False
  obtain t w1 where t: "transport env d w = (t, w1)" by (cases "transport env d w")
  note dt = deliver_transport[OF False t]
  from transport_cases[OF t] consider
    (a) e where "getitem2 (CONFIG w) ''PRINTER'' ''PRINTER'' = Raises e" "t = Some e" "w1 = w"
  | (b) p e where "getitem2 (CONFIG w) ''PRINTER'' ''PRINTER'' = Returns p"
      "BACKEND_CLASS env p = Some e" "t = Some e" "w1 = extended w [Backend_new p]"
  | (c) p e where "getitem2 (CONFIG w) ''PRINTER'' ''PRINTER'' = Returns p"
      "be_write env p d = Some e" "t = Some e" "w1 = extended w [Backend_new p, Backend_write d]"
  | (written) p where "getitem2 (CONFIG w) ''PRINTER'' ''PRINTER'' = Returns p"
      "be_write env p d = None" "t = be_dispose env p"
      "w1 = extended w [Backend_new p, Backend_write d, Backend_dispose]"
    by blast
  then show ?thesis
  proof cases
    case a
    then have "r = Returns (failure\<lparr>message := Some (py_str env e)\<rparr>)" "w' = extended w [Log_warning e]"
      using assms dt by (simp_all add: emit_extended)
    then show ?thesis using a(1)
      by (intro exI[of _ "[Log_warning e]"]) (simp add: delivered_def failure_def)
  next
    case b
    then have "r = Returns (failure\<lparr>message := Some (py_str env e)\<rparr>)"
        "w' = extended w [Backend_new p, Log_warning e]"
      using assms dt by simp_all
    then show ?thesis
      by (intro exI[of _ "[Backend_new p, Log_warning e]"]) (simp add: delivered_def failure_def)
  next
    case c
    then have "r = Returns (failure\<lparr>message := Some (py_str env e)\<rparr>)"
        "w' = extended w [Backend_new p, Backend_write d, Log_warning e]"
      using assms dt by simp_all
    then show ?thesis using c(1,2)
      by (intro exI[of _ "[Backend_new p, Backend_write d, Log_warning e]"])
         (simp add: delivered_def failure_def)
  next
    case written
    show ?thesis
    proof (cases "be_dispose env p")
      case None
      then have "r = Returns (failure\<lparr>success := True\<rparr>)"
          "w' = extended w [Backend_new p, Backend_write d, Backend_dispose]"
        using assms dt written by simp_all
      then show ?thesis using written(1,2)
        by (intro exI[of _ "[Backend_new p, Backend_write d, Backend_dispose]"])
           (simp add: delivered_def failure_def)
    next
      case (Some e)
      then have "r = Returns (failure\<lparr>message := Some (py_str env e)\<rparr>)"
          "w' = extended w [Backend_new p, Backend_write d, Backend_dispose, Log_warning e]"
        using assms dt written by simp_all
      then show ?thesis using written(1,2)
        by (intro exI[of _ "[Backend_new p, Backend_write d, Backend_dispose, Log_warning e]"])
           (simp add: delivered_def failure_def)
    qed
  qed
qed


lemma sent_quiet:
  "filter is_write evs = [] \<Longrightarrow>
   \<forall>l rd t rot. Create_label l rd t rot \<in> set evs
      \<longrightarrow> l = size_name \<and> rd = str_in ''red'' size_name
   \<Longrightarrow> sent env cfg size_name r evs"
  unfolding sent_def filter_empty_conv by fastforce

lemma sent_delivered:
  assumes d: "delivered env cfg d r evs"
    and pre: "filter is_write pre = []"
    and cl: "\<forall>l rd t rot. Create_label l rd t rot \<in> set pre
               \<longrightarrow> l = size_name \<and> rd = str_in ''red'' size_name"
  shows "sent env cfg size_name r (pre @ evs)"
proof -
  have nw: "\<And>x. x \<in> set pre \<Longrightarrow> \<not> is_write x"
    using pre by (simp add: filter_empty_conv)
  have 1: "length (filter is_write (pre @ evs)) \<le> 1"
    using d pre by (simp add: delivered_def)
  have 2: "\<forall>l rd t rot. Create_label l rd t rot \<in> set (pre @ evs)
            \<longrightarrow> l = size_name \<and> rd = str_in ''red'' size_name"
    using d cl by (fastforce simp: delivered_def)
  have 3: "r = Returns (failure\<lparr>message := Some (py_str env e)\<rparr>)
           \<and> (\<exists>pre'. pre @ evs = pre' @ [Backend_write d', Log_warning e]
                  \<and> filter is_write pre' = [])"
    if p: "getitem2 cfg ''PRINTER'' ''PRINTER'' = Returns p" and w: "be_write env p d' = Some e"
      and m: "Backend_write d' \<in> set (pre @ evs)" for d' p e
  proof -
    have "Backend_write d' \<in> set evs" using m nw by fastforce
    then have dd: "d' = d" using d by (fastforce simp: delivered_def)
    then have "r = Returns (failure\<lparr>message := Some (py_str env e)\<rparr>)"
        "evs = [Backend_new p, Backend_write d, Log_warning e]"
      using d p w \<open>Backend_write d' \<in> set evs\<close> by (simp_all add: delivered_def)
    then show ?thesis using pre dd
      by (intro conjI exI[of _ "pre @ [Backend_new p]"]) simp_all
  qed
  show ?thesis unfolding sent_def using 1 2 3 by blast
qed

lemma send_image_cases:
  assumes "send_image env ctx im w = (r, w')"
  shows "\<exists>evs. w' = extended w evs \<and> sent env (CONFIG w) (label_size ctx) r evs
           \<and> (\<forall>rd. r = Returns rd \<longrightarrow> error rd = None)"
proof -
  obtain s w1 where s: "save_sample env im w = (s, w1)" by (cases "save_sample env im w")
  from save_sample_cases[OF s] obtain e1 where e1: "w1 = extended w e1"
      "e1 = [] \<or> e1 = [Save_file ''sample-out.png'']"
    using extended_Nil by blast
  show ?thesis
  proof (cases s)
    case (Some e)
    then have "r = Raises e" "w' = extended w e1" using assms s e1 by (simp_all add: send_image_def)
    then show ?thesis using e1(2)
      by (intro exI[of _ e1]) (auto intro!: sent_quiet)
  next
    case None
    obtain b w2 where b: "build_raster env ctx im w1 = (b, w2)"
      by (cases "build_raster env ctx im w1")
    from build_raster_cases[OF b] obtain e2 where e2: "w2 = extended w1 e2"
      "e2 = [] \<or> (\<exists>m. e2 = [Raster m])
        \<or> (\<exists>m t rot. e2 = [Raster m, Create_label (label_size ctx) (str_in ''red'' (label_size ctx)) t rot])"
      using extended_Nil by blast
    have q: "filter is_write (e1 @ e2) = []"
      "\<forall>l rd t rot. Create_label l rd t rot \<in> set (e1 @ e2)
               \<longrightarrow> l = label_size ctx \<and> rd = str_in ''red'' (label_size ctx)"
      using e1(2) e2(2) by auto
    show ?thesis
    proof (cases b)
      case (Inl e)
      then have "r = Raises e" "w' = extended w (e1 @ e2)"
        using assms s None b e1 e2 by (simp_all add: send_image_def)
      moreover have "sent env (CONFIG w) (label_size ctx) r (e1 @ e2)"
        using sent_quiet[OF q] .
      ultimately show ?thesis by (intro exI[of _ "e1 @ e2"]) simp
    next
      case (Inr d)
      then have dl: "deliver env d w2 = (r, w')"
        using assms s None b by (simp add: send_image_def)
      from deliver_cases[OF dl] obtain e3 where e3: "w' = extended w2 e3"
          "delivered env (CONFIG w2) d r e3" by blast
      have "sent env (CONFIG w) (label_size ctx) r ((e1 @ e2) @ e3)"
        using sent_delivered[OF _ q] e3(2) e1(1) e2(1) by simp
      moreover have "\<forall>rd. r = Returns rd \<longrightarrow> error rd = None"
        using e3(2) by (auto simp: delivered_def)
      ultimately show ?thesis using e3(1) e2(1) e1(1)
        by (intro exI[of _ "(e1 @ e2) @ e3"]) simp
    qed
  qed
qed


lemma sent_Render:
  assumes "sent env cfg size_name r evs"
  shows "sent env cfg size_name r (Render x # evs)"
proof -
  have 3: "r = Returns (failure\<lparr>message := Some (py_str env e)\<rparr>)
           \<and> (\<exists>pre. Render x # evs = pre @ [Backend_write d, Log_warning e]
                  \<and> filter is_write pre = [])"
    if p: "getitem2 cfg ''PRINTER'' ''PRINTER'' = Returns p" and f: "be_write env p d = Some e"
      and m: "Backend_write d \<in> set (Render x # evs)" for d p e
  proof -
    have "Backend_write d \<in> set evs" using m by simp
    then obtain pre where "r = Returns (failure\<lparr>message := Some (py_str env e)\<rparr>)"
        "evs = pre @ [Backend_write d, Log_warning e]" "filter is_write pre = []"
      using assms p f unfolding sent_def by blast
    then show ?thesis
      by (intro conjI exI[of _ "Render x # pre"]) simp_all
  qed
  have 1: "length (filter is_write (Render x # evs)) \<le> 1"
    using assms by (simp add: sent_def)
  have 2: "\<forall>l rd t rot. Create_label l rd t rot \<in> set (Render x # evs)
             \<longrightarrow> l = size_name \<and> rd = str_in ''red'' size_name"
    using assms unfolding sent_def by fastforce
  show ?thesis unfolding sent_def using 1 2 3 by blast
qed

lemma sent_Nil: "sent env cfg size_name r []"
  by (simp add: sent_def)

lemma on_context_error_world: "snd (on_context_error e w) = w"
  by (simp add: on_context_error_def)

lemma print_text_cases:
  assumes "print_text env req w = (r, w')"
  shows "\<exists>evs. w' = extended w evs
           \<and> sent env (CONFIG w) (get_or (params req) ''label_size'' ''50'') r evs"
proof (cases "get_label_context env w req")
  case (Inl e)
  then have "w' = extended w []"
    using assms on_context_error_world[of e w] by (simp add: print_text_def extended_def)
  then show ?thesis using sent_Nil by blast
next
  case (Inr ctx)
  note size_name = get_label_context_Returns(1)[OF Inr]
  show ?thesis
  proof (cases "label_text ctx = None")
    case True
    then have "w' = extended w []" using assms Inr by (simp add: print_text_def extended_def)
    then show ?thesis using sent_Nil by blast
  next
    case False
    show ?thesis
    proof (cases "create_label_im env (label_text ctx) ctx")
      case (Inl e)
      then have "w' = extended w [Render Label_im]"
        using assms Inr False by (simp add: print_text_def emit_extended)
      then show ?thesis using sent_Render[OF sent_Nil] by blast
    next
      case im: (Inr im)
      then have "send_image env ctx (Some im) (extended w [Render Label_im]) = (r, w')"
        using assms Inr False by (simp add: print_text_def emit_extended)
      from send_image_cases[OF this] obtain evs where
        "w' = extended w (Render Label_im # evs)" "sent env (CONFIG w) (label_size ctx) r evs"
        by auto
      then show ?thesis using sent_Render size_name by metis
    qed
  qed
qed

lemma create_label_grocy_1d_world:
  "create_label_grocy_1d env txt ctx w = (im, w1) \<Longrightarrow>
   w1 = w \<or> (\<exists>e. w1 = extended w [Log_error e])"
  by (auto simp: create_label_grocy_1d_def emit_extended split: sum.splits)

lemma sent_Log_error:
  assumes "sent env cfg size_name r evs"
  shows "sent env cfg size_name r (Log_error x # evs)"
proof -
  have 3: "r = Returns (failure\<lparr>message := Some (py_str env e)\<rparr>)
           \<and> (\<exists>pre. Log_error x # evs = pre @ [Backend_write d, Log_warning e]
                  \<and> filter is_write pre = [])"
    if p: "getitem2 cfg ''PRINTER'' ''PRINTER'' = Returns p" and f: "be_write env p d = Some e"
      and m: "Backend_write d \<in> set (Log_error x # evs)" for d p e
  proof -
    have "Backend_write d \<in> set evs" using m by simp
    then obtain pre where "r = Returns (failure\<lparr>message := Some (py_str env e)\<rparr>)"
        "evs = pre @ [Backend_write d, Log_warning e]" "filter is_write pre = []"
      using assms p f unfolding sent_def by blast
    then show ?thesis
      by (intro conjI exI[of _ "Log_error x # pre"]) simp_all
  qed
  have 1: "length (filter is_write (Log_error x # evs)) \<le> 1"
    using assms by (simp add: sent_def)
  have 2: "\<forall>l rd t rot. Create_label l rd t rot \<in> set (Log_error x # evs)
             \<longrightarrow> l = size_name \<and> rd = str_in ''red'' size_name"
    using assms unfolding sent_def by fastforce
  show ?thesis unfolding sent_def using 1 2 3 by blast
qed

lemma print_grocy_cases:
  assumes "print_grocy env req w = (r, w')"
  shows "\<exists>evs. w' = extended w evs
           \<and> sent env (CONFIG w) (get_or (params req) ''label_size'' ''50'') r evs"
proof (cases "get_label_context env w req")
  case (Inl e)
  then have "w' = extended w []"
    using assms on_context_error_world[of e w] by (simp add: print_grocy_def extended_def)
  then show ?thesis using sent_Nil by blast
next
  case (Inr ctx)
  note size_name = get_label_context_Returns(1)[OF Inr]
  show ?thesis
  proof (cases "product ctx = None \<and> truthy_str (battery ctx) \<and> truthy_str (chore ctx)")
    case True
    then have "w' = extended w []" using assms Inr by (simp add: print_grocy_def extended_def)
    then show ?thesis using sent_Nil by blast
  next
    case False
    show ?thesis
    proof (cases "environ env ''Code128'' = Some ''1''")
      case True
      obtain im w1 where g: "create_label_grocy_1d env (label_text ctx) ctx
          (extended w [Render Label_grocy_1d]) = (im, w1)"
        by (cases "create_label_grocy_1d env (label_text ctx) ctx (extended w [Render Label_grocy_1d])")
      then have s: "send_image env ctx im w1 = (r, w')"
        using assms Inr False True by (simp add: print_grocy_def emit_extended)
      from send_image_cases[OF s] obtain evs where
        evs: "w' = extended w1 evs" "sent env (CONFIG w1) (label_size ctx) r evs"
        by auto
      from create_label_grocy_1d_world[OF g] show ?thesis
      proof
        assume "w1 = extended w [Render Label_grocy_1d]"
        then have "w' = extended w (Render Label_grocy_1d # evs)"
          "sent env (CONFIG w) (label_size ctx) r evs" using evs by simp_all
        then show ?thesis using sent_Render size_name by metis
      next
        assume "\<exists>e. w1 = extended (extended w [Render Label_grocy_1d]) [Log_error e]"
        then obtain e where "w1 = extended w [Render Label_grocy_1d, Log_error e]" by auto
        then have "w' = extended w (Render Label_grocy_1d # Log_error e # evs)"
          "sent env (CONFIG w) (label_size ctx) r evs" using evs by simp_all
        then show ?thesis using sent_Render sent_Log_error size_name by metis
      qed
    next
      case no1d: False
      show ?thesis
      proof (cases "create_label_grocy env (label_text ctx) ctx")
        case (Inl e)
        then have "w' = extended w [Render Label_grocy]"
          using assms Inr False no1d by (simp add: print_grocy_def emit_extended)
        then show ?thesis using sent_Render[OF sent_Nil] by blast
      next
        case im: (Inr im)
        then have "send_image env ctx (Some im) (extended w [Render Label_grocy]) = (r, w')"
          using assms Inr False no1d by (simp add: print_grocy_def emit_extended)
        from send_image_cases[OF this] obtain evs where
          "w' = extended w (Render Label_grocy # evs)" "sent env (CONFIG w) (label_size ctx) r evs"
          by auto
        then show ?thesis using sent_Render size_name by metis
      qed
    qed
  qed
qed

subsection \<open>The label context\<close>

text \<open>
  C3. Two label contexts for the same label size, one built with the orientation
  \<^verbatim>\<open>standard\<close> and one with \<^verbatim>\<open>rotated\<close>: the width and height of the rotated one are the
  height and width of the standard one; the standard one is at least as wide as high,
  the rotated one at least as high as wide.
\<close>

theorem rotated_swaps_standard:
  assumes "get_label_context env w1 r1 = Returns c1"
    and "get_label_context env w2 r2 = Returns c2"
    and "label_size c1 = label_size c2"
    and "orientation c1 = ''standard''"
    and "orientation c2 = ''rotated''"
  shows "(width c2, height c2) = (height c1, width c1)
         \<and> height c1 \<le> width c1 \<and> width c2 \<le> height c2"
proof -
  obtain ls1 where l1: "label_type_specs env (label_size c1) = Some ls1"
      "width c1 = fst (oriented (orientation c1) (dots_printable ls1))"
      "height c1 = snd (oriented (orientation c1) (dots_printable ls1))"
    using get_label_context_Returns(4)[OF assms(1)] by blast
  obtain ls2 where l2: "label_type_specs env (label_size c2) = Some ls2"
      "width c2 = fst (oriented (orientation c2) (dots_printable ls2))"
      "height c2 = snd (oriented (orientation c2) (dots_printable ls2))"
    using get_label_context_Returns(4)[OF assms(2)] by blast
  have same: "ls2 = ls1" using l1(1) l2(1) assms(3) by simp
  have ne: "''standard'' \<noteq> ''rotated''" by simp
  show ?thesis
    using l1(2,3) l2(2,3) same assms(4,5) oriented_swap[OF ne, of "dots_printable ls1"]
      oriented_standard[OF ne, of "dots_printable ls1"] oriented_rotated[of "dots_printable ls1"]
    by simp
qed

theorem rotated_swaps_standard_witness:
  "get_label_context sample_env sample_world
     (form [(''font_family'', ''DejaVu Sans (Book)''), (''label_size'', ''29x90'')])
   = Returns (sample_context ''29x90'' ''standard'' DIE_CUT_LABEL 991 306 None)
   \<and> get_label_context sample_env sample_world
       (form [(''font_family'', ''DejaVu Sans (Book)''), (''label_size'', ''29x90''),
              (''orientation'', ''rotated'')])
     = Returns (sample_context ''29x90'' ''rotated'' DIE_CUT_LABEL 306 991 None)
   \<and> (width (sample_context ''29x90'' ''rotated'' DIE_CUT_LABEL 306 991 None),
       height (sample_context ''29x90'' ''rotated'' DIE_CUT_LABEL 306 991 None))
     = (height (sample_context ''29x90'' ''standard'' DIE_CUT_LABEL 991 306 None),
        width (sample_context ''29x90'' ''standard'' DIE_CUT_LABEL 991 306 None))
   \<and> width (sample_context ''29x90'' ''rotated'' DIE_CUT_LABEL 306 991 None) = 306
   \<and> height (sample_context ''29x90'' ''rotated'' DIE_CUT_LABEL 306 991 None) = 991"
  using rotated_swaps_standard[OF sample_standard sample_rotated] sample_standard sample_rotated
  by (simp add: sample_context_def)

text \<open>
  C4. A request that names a font the registry resolves and has none of the optional
  fields (the table of labels knowing the size \<^verbatim>\<open>50\<close>): \<^verbatim>\<open>get_label_context\<close> returns, with
  font size 40, label size \<^verbatim>\<open>50\<close>, margin 10, threshold 70, alignment \<^verbatim>\<open>center\<close>, orientation
  \<^verbatim>\<open>standard\<close>, and each of the four margins 10, a quarter of the font size.
\<close>

theorem defaults_when_omitted:
  assumes ff: "params req ''font_family'' = Some ff"
    and font: "get_font_path w (Some (strip (fst (rpartition CHR ''('' ff))))
                 (Some (rstrip '')'' (snd (snd (rpartition CHR ''('' ff))))) = Returns p"
    and spec: "label_type_specs env ''50'' = Some ls"
    and omitted: "dom (params req) \<inter> optional_fields = {}"
  shows "\<exists>ctx. get_label_context env w req = Returns ctx
           \<and> font_size ctx = 40 \<and> label_size ctx = ''50'' \<and> margin ctx = 10
           \<and> threshold ctx = 70 \<and> align ctx = ''center'' \<and> orientation ctx = ''standard''
           \<and> margin_top ctx = 10 \<and> margin_bottom ctx = 10
           \<and> margin_left ctx = 10 \<and> margin_right ctx = 10"
proof -
  have "\<And>k. k \<in> optional_fields \<Longrightarrow> params req k = None"
    using omitted by (auto simp: dom_def)
  then have none: "params req ''font_size'' = None" "params req ''label_size'' = None"
    "params req ''margin'' = None" "params req ''threshold'' = None"
    "params req ''align'' = None" "params req ''orientation'' = None"
    "params req ''margin_top'' = None" "params req ''margin_bottom'' = None"
    "params req ''margin_left'' = None" "params req ''margin_right'' = None"
    by (simp_all add: optional_fields_def)
  show ?thesis
    by (simp add: get_label_context_def Let_def ff font spec none int_field_def get_or_def
        percent_field_def default_percent default_margin get_label_dimensions_def)
qed

theorem defaults_when_omitted_witness:
  "params (form [(''font_family'', ''DejaVu Sans (Book)''), (''text'', ''Hello'')]) ''font_family''
     = Some ''DejaVu Sans (Book)''
   \<and> dom (params (form [(''font_family'', ''DejaVu Sans (Book)''), (''text'', ''Hello'')]))
       \<inter> optional_fields = {}
   \<and> (\<exists>ctx. get_label_context sample_env sample_world
               (form [(''font_family'', ''DejaVu Sans (Book)''), (''text'', ''Hello'')])
             = Returns ctx
           \<and> font_size ctx = 40 \<and> label_size ctx = ''50'' \<and> margin ctx = 10
           \<and> threshold ctx = 70 \<and> align ctx = ''center'' \<and> orientation ctx = ''standard''
           \<and> margin_top ctx = 10 \<and> margin_bottom ctx = 10
           \<and> margin_left ctx = 10 \<and> margin_right ctx = 10)"
proof -
  let ?req = "form [(''font_family'', ''DejaVu Sans (Book)''), (''text'', ''Hello'')]"
  have ff: "params ?req ''font_family'' = Some ''DejaVu Sans (Book)''"
    by (simp add: form_def)
  have spec: "label_type_specs sample_env ''50''
      = Some \<lparr>spec_name = ''50mm endless'', spec_kind = ENDLESS_LABEL, dots_printable = (554, 0)\<rparr>"
    by (simp add: sample_env_def sample_specs_def)
  have omitted: "dom (params ?req) \<inter> optional_fields = {}"
    by (simp add: form_def optional_fields_def)
  show ?thesis
    using defaults_when_omitted[OF ff sample_font spec omitted] ff omitted by simp
qed

subsection \<open>Printing\<close>

lemma print_hello_offline:
  "print_text offline_env hello sample_world =
     (Returns \<lparr>success = False, error = None, message = Some ''Device not found'', data = None\<rparr>,
      sample_world\<lparr>trace :=
        [Render Label_im, Raster (PyStr ''QL-500''), Create_label ''50'' False 70 Rotate0,
         Backend_new (PyStr ''file:///dev/usb/lp1''), Backend_write ''RASTER'',
         Log_warning (Exn (LibraryError ''OSError'') ''Device not found'')]\<rparr>)"
  by code_simp

lemma print_hello:
  "print_text sample_env hello sample_world =
     (Returns \<lparr>success = True, error = None, message = None, data = None\<rparr>,
      sample_world\<lparr>trace :=
        [Render Label_im, Raster (PyStr ''QL-500''), Create_label ''50'' False 70 Rotate0,
         Backend_new (PyStr ''file:///dev/usb/lp1''), Backend_write ''RASTER'',
         Backend_dispose]\<rparr>)"
  by code_simp

lemma events_of_sample [simp]: "events_of sample_world (sample_world\<lparr>trace := evs\<rparr>) = evs"
  by (simp add: events_of_def sample_world_def)

lemma printer_of_sample:
  "getitem2 (CONFIG sample_world) ''PRINTER'' ''PRINTER'' = Returns (PyStr ''file:///dev/usb/lp1'')"
  by code_simp

lemma handler_cases:
  assumes "h = print_text \<or> h = print_grocy" and "h env req w = (r, w')"
  shows "\<exists>evs. w' = extended w evs
           \<and> sent env (CONFIG w) (get_or (params req) ''label_size'' ''50'') r evs"
  using assms print_text_cases print_grocy_cases by blast

text \<open>
  C2. A print request (\<^verbatim>\<open>print_text\<close> or \<^verbatim>\<open>print_grocy\<close>) that gets as far as the write of the
  backend, where the write raises \<open>e\<close>: the endpoint returns the dictionary with
  \<^verbatim>\<open>success\<close> false and \<^verbatim>\<open>message\<close> the text \<^verbatim>\<open>str(e)\<close>, and has logged a warning with \<open>e\<close>;
  nothing is raised to the caller.
\<close>

theorem transport_failure_is_reported:
  assumes "h = print_text \<or> h = print_grocy"
    and "h env req w = (r, w')"
    and "Backend_write d \<in> set (events_of w w')"
    and "getitem2 (CONFIG w) ''PRINTER'' ''PRINTER'' = Returns p"
    and "be_write env p d = Some e"
  shows "r = Returns \<lparr>success = False, error = None, message = Some (py_str env e), data = None\<rparr>
         \<and> Log_warning e \<in> set (events_of w w')"
proof -
  obtain evs where evs: "w' = extended w evs"
      "sent env (CONFIG w) (get_or (params req) ''label_size'' ''50'') r evs"
    using handler_cases[OF assms(1,2)] by blast
  have "Backend_write d \<in> set evs" using assms(3) evs(1) by simp
  then obtain pre where "r = Returns (failure\<lparr>message := Some (py_str env e)\<rparr>)"
      "evs = pre @ [Backend_write d, Log_warning e]"
    using evs(2) assms(4,5) unfolding sent_def by blast
  then show ?thesis using evs(1) by (simp add: failure_def)
qed

theorem transport_failure_is_reported_witness:
  "print_text offline_env hello sample_world =
     (Returns \<lparr>success = False, error = None, message = Some ''Device not found'', data = None\<rparr>,
      sample_world\<lparr>trace :=
        [Render Label_im, Raster (PyStr ''QL-500''), Create_label ''50'' False 70 Rotate0,
         Backend_new (PyStr ''file:///dev/usb/lp1''), Backend_write ''RASTER'',
         Log_warning (Exn (LibraryError ''OSError'') ''Device not found'')]\<rparr>)
   \<and> be_write offline_env (PyStr ''file:///dev/usb/lp1'') ''RASTER''
       = Some (Exn (LibraryError ''OSError'') ''Device not found'')
   \<and> py_str offline_env (Exn (LibraryError ''OSError'') ''Device not found'') = ''Device not found''"
proof -
  have w: "be_write offline_env (PyStr ''file:///dev/usb/lp1'') ''RASTER''
       = Some (Exn (LibraryError ''OSError'') ''Device not found'')"
    by (simp add: offline_env_def)
  have m: "Backend_write ''RASTER'' \<in> set (events_of sample_world (sample_world\<lparr>trace :=
        [Render Label_im, Raster (PyStr ''QL-500''), Create_label ''50'' False 70 Rotate0,
         Backend_new (PyStr ''file:///dev/usb/lp1''), Backend_write ''RASTER'',
         Log_warning (Exn (LibraryError ''OSError'') ''Device not found'')]\<rparr>))"
    by simp
  show ?thesis
    using transport_failure_is_reported[OF disjI1[OF refl] print_hello_offline m printer_of_sample w]
      print_hello_offline w
    by (simp add: offline_env_def sample_env_def)
qed

text \<open>
  C7. A print request writes to the backend at most once. When that write raises, the
  reply is the error dictionary and the write is the last call of the request: only the
  log record follows it, and no other write precedes it.
\<close>

theorem write_attempted_at_most_once:
  assumes "h = print_text \<or> h = print_grocy"
    and "h env req w = (r, w')"
  shows "length (filter is_write (events_of w w')) \<le> 1
         \<and> (\<forall>d p e. getitem2 (CONFIG w) ''PRINTER'' ''PRINTER'' = Returns p
                \<and> be_write env p d = Some e \<and> Backend_write d \<in> set (events_of w w')
              \<longrightarrow> r = Returns \<lparr>success = False, error = None,
                                 message = Some (py_str env e), data = None\<rparr>
                  \<and> (\<exists>pre. events_of w w' = pre @ [Backend_write d, Log_warning e]
                         \<and> filter is_write pre = []))"
proof -
  obtain evs where evs: "w' = extended w evs"
      "sent env (CONFIG w) (get_or (params req) ''label_size'' ''50'') r evs"
    using handler_cases[OF assms(1,2)] by blast
  have ev: "events_of w w' = evs" using evs(1) by simp
  have once: "length (filter is_write evs) \<le> 1"
    using evs(2) by (simp add: sent_def)
  have stop: "r = Returns \<lparr>success = False, error = None,
                           message = Some (py_str env e), data = None\<rparr>
              \<and> (\<exists>pre. evs = pre @ [Backend_write d, Log_warning e] \<and> filter is_write pre = [])"
    if "getitem2 (CONFIG w) ''PRINTER'' ''PRINTER'' = Returns p
        \<and> be_write env p d = Some e \<and> Backend_write d \<in> set evs" for d p e
  proof -
    have "r = Returns (failure\<lparr>message := Some (py_str env e)\<rparr>)
          \<and> (\<exists>pre. evs = pre @ [Backend_write d, Log_warning e] \<and> filter is_write pre = [])"
      using evs(2) that unfolding sent_def by blast
    then show ?thesis by (simp add: failure_def)
  qed
  show ?thesis unfolding ev using once stop by blast
qed

theorem write_attempted_at_most_once_witness:
  "print_text offline_env hello sample_world =
     (Returns \<lparr>success = False, error = None, message = Some ''Device not found'', data = None\<rparr>,
      sample_world\<lparr>trace :=
        [Render Label_im, Raster (PyStr ''QL-500''), Create_label ''50'' False 70 Rotate0,
         Backend_new (PyStr ''file:///dev/usb/lp1''), Backend_write ''RASTER'',
         Log_warning (Exn (LibraryError ''OSError'') ''Device not found'')]\<rparr>)
   \<and> length (filter is_write
        [Render Label_im, Raster (PyStr ''QL-500''), Create_label ''50'' False 70 Rotate0,
         Backend_new (PyStr ''file:///dev/usb/lp1''), Backend_write ''RASTER'',
         Log_warning (Exn (LibraryError ''OSError'') ''Device not found'')]) = 1
   \<and> length (filter is_write (events_of sample_world (snd (print_text sample_env hello sample_world)))) = 1"
  using write_attempted_at_most_once[OF disjI1[OF refl] print_hello_offline]
    write_attempted_at_most_once[OF disjI1[OF refl] print_hello]
    print_hello_offline print_hello
  by simp

lemma starts_with_iff: "starts_with sub s \<longleftrightarrow> (\<exists>post. s = sub @ post)"
  by (induction sub s rule: starts_with.induct) auto

lemma str_in_iff: "str_in sub s \<longleftrightarrow> (\<exists>pre post. s = pre @ sub @ post)"
proof (induction s)
  case Nil
  then show ?case by auto
next
  case (Cons x xs)
  show ?case
  proof
    assume "str_in sub (x # xs)"
    then consider "starts_with sub (x # xs)" | "str_in sub xs" by auto
    then show "\<exists>pre post. x # xs = pre @ sub @ post"
    proof cases
      case 1
      then obtain post where "x # xs = sub @ post" using starts_with_iff by blast
      then have "x # xs = [] @ sub @ post" by simp
      then show ?thesis by blast
    next
      case 2
      then obtain pre post where "xs = pre @ sub @ post" using Cons.IH by blast
      then have "x # xs = (x # pre) @ sub @ post" by simp
      then show ?thesis by blast
    qed
  next
    assume "\<exists>pre post. x # xs = pre @ sub @ post"
    then obtain pre post where p: "x # xs = pre @ sub @ post" by blast
    show "str_in sub (x # xs)"
    proof (cases pre)
      case Nil
      then have "starts_with sub (x # xs)" using p starts_with_iff by auto
      then show ?thesis by simp
    next
      case (Cons y ys)
      then have "xs = ys @ sub @ post" using p by simp
      then show ?thesis using Cons.IH by auto
    qed
  qed
qed

text \<open>
  C10. The fill colour of a label context is red, \<open>(255, 0, 0)\<close>, exactly when the string
  \<^verbatim>\<open>red\<close> occurs in its label size, and black, \<open>(0, 0, 0)\<close>, exactly when it does not; and
  every call of the raster builder that a print endpoint makes for the request passes that
  label size and \<^verbatim>\<open>red\<close> true under the same condition.
\<close>

theorem red_iff_label_size_has_red:
  assumes "get_label_context env w req = Returns ctx"
    and "h = print_text \<or> h = print_grocy"
    and "h env req w = (r, w')"
  shows "(fill_color ctx = (255, 0, 0) \<longleftrightarrow> (\<exists>pre post. label_size ctx = pre @ ''red'' @ post))
         \<and> (fill_color ctx = (0, 0, 0) \<longleftrightarrow> \<not> (\<exists>pre post. label_size ctx = pre @ ''red'' @ post))
         \<and> (\<forall>l red t rot. Create_label l red t rot \<in> set (events_of w w')
              \<longrightarrow> l = label_size ctx
                  \<and> (red \<longleftrightarrow> (\<exists>pre post. label_size ctx = pre @ ''red'' @ post)))"
proof -
  obtain evs where evs: "w' = extended w evs"
      "sent env (CONFIG w) (get_or (params req) ''label_size'' ''50'') r evs"
    using handler_cases[OF assms(2,3)] by blast
  have ev: "events_of w w' = evs" using evs(1) by simp
  note sz = get_label_context_Returns(1)[OF assms(1)]
  have col: "fill_color ctx = (if str_in ''red'' (label_size ctx) then (255, 0, 0) else (0, 0, 0))"
    using get_label_context_Returns(5)[OF assms(1)] .
  have cl: "l = label_size ctx \<and> (red \<longleftrightarrow> str_in ''red'' (label_size ctx))"
    if "Create_label l red t rot \<in> set evs" for l red t rot
    using evs(2) that sz unfolding sent_def by metis
  show ?thesis
    unfolding ev str_in_iff[symmetric] using col cl by auto
qed

lemma print_red:
  "print_text sample_env red_label sample_world =
     (Returns \<lparr>success = True, error = None, message = None, data = None\<rparr>,
      sample_world\<lparr>trace :=
        [Render Label_im, Raster (PyStr ''QL-500''), Create_label ''62red'' True 70 Rotate0,
         Backend_new (PyStr ''file:///dev/usb/lp1''), Backend_write ''RASTER'',
         Backend_dispose]\<rparr>)"
  by code_simp

lemma context_red:
  "get_label_context sample_env sample_world red_label
   = Returns (sample_context ''62red'' ''standard'' ENDLESS_LABEL 696 0 (Some ''Hello''))"
  by code_simp

theorem red_iff_label_size_has_red_witness:
  "get_label_context sample_env sample_world red_label
     = Returns (sample_context ''62red'' ''standard'' ENDLESS_LABEL 696 0 (Some ''Hello''))
   \<and> fill_color (sample_context ''62red'' ''standard'' ENDLESS_LABEL 696 0 (Some ''Hello''))
       = (255, 0, 0)
   \<and> (\<exists>pre post. label_size (sample_context ''62red'' ''standard'' ENDLESS_LABEL 696 0 (Some ''Hello''))
         = pre @ ''red'' @ post)
   \<and> Create_label ''62red'' True 70 Rotate0
       \<in> set (events_of sample_world (snd (print_text sample_env red_label sample_world)))"
  using red_iff_label_size_has_red[OF context_red disjI1[OF refl] print_red] context_red print_red
  by (simp add: sample_context_def)


lemma print_grocy_rendering:
  assumes ctx: "get_label_context env w req = Returns ctx"
    and run: "print_grocy env req w = (r, w')"
    and given: "\<not> (product ctx = None \<and> truthy_str (battery ctx) \<and> truthy_str (chore ctx))"
  shows "(\<forall>rd. r = Returns rd \<longrightarrow> error rd = None)
         \<and> (\<exists>evs. w' = extended w (Render Label_grocy # evs)
                  \<or> w' = extended w (Render Label_grocy_1d # evs))"
proof (cases "environ env ''Code128'' = Some ''1''")
  case True
  obtain im w1 where g: "create_label_grocy_1d env (label_text ctx) ctx
      (extended w [Render Label_grocy_1d]) = (im, w1)"
    by (cases "create_label_grocy_1d env (label_text ctx) ctx (extended w [Render Label_grocy_1d])")
  then have s: "send_image env ctx im w1 = (r, w')"
    using run ctx given True by (simp add: print_grocy_def emit_extended)
  from send_image_cases[OF s] obtain evs where
    evs: "w' = extended w1 evs" "\<forall>rd. r = Returns rd \<longrightarrow> error rd = None"
    by auto
  from create_label_grocy_1d_world[OF g] obtain pre where "w1 = extended w (Render Label_grocy_1d # pre)"
    by auto
  then have "w' = extended w (Render Label_grocy_1d # (pre @ evs))" using evs(1) by simp
  then show ?thesis using evs(2) by blast
next
  case False
  show ?thesis
  proof (cases "create_label_grocy env (label_text ctx) ctx")
    case (Inl e)
    then have "r = Raises e" "w' = extended w (Render Label_grocy # [])"
      using run ctx given False by (simp_all add: print_grocy_def emit_extended)
    then show ?thesis by blast
  next
    case (Inr im)
    then have "send_image env ctx (Some im) (extended w [Render Label_grocy]) = (r, w')"
      using run ctx given False by (simp add: print_grocy_def emit_extended)
    from send_image_cases[OF this] obtain evs where
      "w' = extended w (Render Label_grocy # evs)" "\<forall>rd. r = Returns rd \<longrightarrow> error rd = None"
      by auto
    then show ?thesis by blast
  qed
qed

text \<open>
  C8. Once the label context is built, \<^verbatim>\<open>print_grocy\<close> answers with the validation error
  exactly when the product is \<^verbatim>\<open>None\<close> and battery and chore are both truthy. A request
  with none of the three fields does not get that answer: it goes on to draw the label.
\<close>

theorem grocy_validation_branch:
  assumes ctx: "get_label_context env w req = Returns ctx"
    and run: "print_grocy env req w = (r, w')"
  shows "(r = Returns grocy_missing
            \<longleftrightarrow> product ctx = None \<and> truthy_str (battery ctx) \<and> truthy_str (chore ctx))
         \<and> (params req ''product'' = None \<and> params req ''battery'' = None
              \<and> params req ''chore'' = None
            \<longrightarrow> r \<noteq> Returns grocy_missing
                \<and> (\<exists>evs. events_of w w' = Render Label_grocy # evs
                         \<or> events_of w w' = Render Label_grocy_1d # evs))"
proof (cases "product ctx = None \<and> truthy_str (battery ctx) \<and> truthy_str (chore ctx)")
  case True
  then have "r = Returns grocy_missing"
    using run ctx by (simp add: print_grocy_def grocy_missing_def failure_def)
  moreover have "params req ''battery'' \<noteq> None"
    using True get_label_context_Returns(8)[OF ctx] by (cases "params req ''battery''") auto
  ultimately show ?thesis using True by simp
next
  case False
  from print_grocy_rendering[OF ctx run False] obtain evs where
    e: "\<forall>rd. r = Returns rd \<longrightarrow> error rd = None"
    and r: "w' = extended w (Render Label_grocy # evs) \<or> w' = extended w (Render Label_grocy_1d # evs)"
    by blast
  have "r \<noteq> Returns grocy_missing" using e by (auto simp: grocy_missing_def)
  moreover have "events_of w w' = Render Label_grocy # evs \<or> events_of w w' = Render Label_grocy_1d # evs"
    using r by auto
  ultimately show ?thesis using False by blast
qed

lemma context_no_product:
  "get_label_context sample_env sample_world no_product
   = Returns ((sample_context ''50'' ''standard'' ENDLESS_LABEL 554 0 None)
               \<lparr>grocycode := Some ''grcy:p:1''\<rparr>)"
  by code_simp

lemma context_two_of_three:
  "get_label_context sample_env sample_world two_of_three
   = Returns ((sample_context ''50'' ''standard'' ENDLESS_LABEL 554 0 None)
               \<lparr>battery := Some ''AA'', chore := Some ''Dishes''\<rparr>)"
  by code_simp

lemma grocy_no_product:
  "print_grocy sample_env no_product sample_world =
     (Raises (Exn TypeError
        ([CHR 0x27, CHR ''>'', CHR 0x27] @ '' not supported between instances of ''
          @ [CHR 0x27] @ ''builtin_function_or_method'' @ [CHR 0x27] @ '' and ''
          @ [CHR 0x27] @ ''int'' @ [CHR 0x27])),
      sample_world\<lparr>trace := [Render Label_grocy]\<rparr>)"
  by code_simp

lemma grocy_two_of_three:
  "print_grocy sample_env two_of_three sample_world = (Returns grocy_missing, sample_world)"
  by code_simp

theorem grocy_validation_branch_witness:
  "print_grocy sample_env two_of_three sample_world = (Returns grocy_missing, sample_world)
   \<and> product ((sample_context ''50'' ''standard'' ENDLESS_LABEL 554 0 None)
               \<lparr>battery := Some ''AA'', chore := Some ''Dishes''\<rparr>) = None
   \<and> params no_product ''product'' = None \<and> params no_product ''battery'' = None
   \<and> params no_product ''chore'' = None
   \<and> fst (print_grocy sample_env no_product sample_world) \<noteq> Returns grocy_missing
   \<and> (\<exists>evs. events_of sample_world (snd (print_grocy sample_env no_product sample_world))
              = Render Label_grocy # evs
            \<or> events_of sample_world (snd (print_grocy sample_env no_product sample_world))
              = Render Label_grocy_1d # evs)"
  using grocy_validation_branch[OF context_two_of_three grocy_two_of_three]
    grocy_validation_branch[OF context_no_product grocy_no_product]
    grocy_two_of_three grocy_no_product
  by (simp add: no_product_def form_def sample_context_def)

subsection \<open>The global state\<close>

lemma same_globals_emit: "same_globals w1 w2 \<Longrightarrow> same_globals (emit ev w1) (emit ev' w2)"
  by (simp add: same_globals_def emit_def)

lemma same_globals_extended: "same_globals (extended w evs) w"
  by (simp add: same_globals_def)

lemma get_font_path_same:
  assumes "same_globals w1 w2"
  shows "get_font_path w1 f s = get_font_path w2 f s"
proof -
  have c: "CONFIG w1 = CONFIG w2" and f: "FONTS w1 = FONTS w2"
    using assms by (simp_all add: same_globals_def)
  show ?thesis unfolding get_font_path_def c f by (rule refl)
qed

lemma get_label_context_same:
  assumes "same_globals w1 w2"
  shows "get_label_context env w1 req = get_label_context env w2 req"
  unfolding get_label_context_def get_font_path_same[OF assms] by (rule refl)

lemma save_sample_same:
  assumes "same_globals w1 w2"
  shows "fst (save_sample env im w1) = fst (save_sample env im w2)
         \<and> same_globals (snd (save_sample env im w1)) (snd (save_sample env im w2))"
  using assms
  by (auto simp: save_sample_def same_globals_def emit_def split: option.splits)

lemma build_raster_same:
  assumes "same_globals w1 w2"
  shows "fst (build_raster env ctx im w1) = fst (build_raster env ctx im w2)
         \<and> same_globals (snd (build_raster env ctx im w1)) (snd (build_raster env ctx im w2))"
  using assms
  by (auto simp: build_raster_def same_globals_def emit_def Let_def split: option.splits sum.splits)

lemma transport_same:
  assumes "same_globals w1 w2"
  shows "fst (transport env d w1) = fst (transport env d w2)
         \<and> same_globals (snd (transport env d w1)) (snd (transport env d w2))"
  using assms
  by (auto simp: transport_def same_globals_def emit_def split: option.splits sum.splits)

lemma deliver_same:
  assumes "same_globals w1 w2"
  shows "fst (deliver env d w1) = fst (deliver env d w2)
         \<and> same_globals (snd (deliver env d w1)) (snd (deliver env d w2))"
proof -
  obtain t1 v1 where t1: "transport env d w1 = (t1, v1)" by (cases "transport env d w1")
  obtain t2 v2 where t2: "transport env d w2 = (t2, v2)" by (cases "transport env d w2")
  have "t1 = t2" "same_globals v1 v2" using transport_same[OF assms, of env d] t1 t2 by simp_all
  then show ?thesis
    using assms t1 t2 same_globals_emit
    by (auto simp: deliver_def same_globals_def split: option.splits)
qed

lemma send_image_same:
  assumes "same_globals w1 w2"
  shows "fst (send_image env ctx im w1) = fst (send_image env ctx im w2)"
proof -
  obtain s1 v1 where s1: "save_sample env im w1 = (s1, v1)" by (cases "save_sample env im w1")
  obtain s2 v2 where s2: "save_sample env im w2 = (s2, v2)" by (cases "save_sample env im w2")
  have s: "s1 = s2" "same_globals v1 v2" using save_sample_same[OF assms, of env im] s1 s2 by simp_all
  obtain b1 u1 where b1: "build_raster env ctx im v1 = (b1, u1)" by (cases "build_raster env ctx im v1")
  obtain b2 u2 where b2: "build_raster env ctx im v2 = (b2, u2)" by (cases "build_raster env ctx im v2")
  have b: "b1 = b2" "same_globals u1 u2" using build_raster_same[OF s(2), of env ctx im] b1 b2 by simp_all
  show ?thesis
    using s1 s2 s(1) b1 b2 b deliver_same[OF b(2)]
    by (auto simp: send_image_def split: option.splits sum.splits)
qed

lemma print_text_same:
  assumes "same_globals w1 w2"
  shows "fst (print_text env req w1) = fst (print_text env req w2)"
  using send_image_same[OF same_globals_emit[OF assms]] get_label_context_same[OF assms, of env req]
  by (auto simp: print_text_def on_context_error_def split: sum.splits)

lemma create_label_grocy_1d_same:
  assumes "same_globals w1 w2"
  shows "fst (create_label_grocy_1d env txt ctx w1) = fst (create_label_grocy_1d env txt ctx w2)
     \<and> same_globals (snd (create_label_grocy_1d env txt ctx w1)) (snd (create_label_grocy_1d env txt ctx w2))"
  using assms same_globals_emit
  by (auto simp: create_label_grocy_1d_def split: sum.splits)

lemma print_grocy_same:
  assumes "same_globals w1 w2"
  shows "fst (print_grocy env req w1) = fst (print_grocy env req w2)"
proof -
  let ?g1 = "create_label_grocy_1d env"
  have e: "same_globals (emit (Render Label_grocy_1d) w1) (emit (Render Label_grocy_1d) w2)"
    using same_globals_emit[OF assms] .
  have g: "fst (case ?g1 t ctx (emit (Render Label_grocy_1d) w1) of (im, w) \<Rightarrow> send_image env ctx im w)
      = fst (case ?g1 t ctx (emit (Render Label_grocy_1d) w2) of (im, w) \<Rightarrow> send_image env ctx im w)"
    for t ctx
    using create_label_grocy_1d_same[OF e, of env t ctx] send_image_same
    by (auto simp: split_beta)
  show ?thesis
    using send_image_same[OF same_globals_emit[OF assms]] get_label_context_same[OF assms, of env req] g
    by (auto simp: print_grocy_def on_context_error_def split: sum.splits)
qed

lemma get_preview_image_same:
  assumes "same_globals w1 w2"
  shows "fst (get_preview_image env req w1) = fst (get_preview_image env req w2)"
  using get_label_context_same[OF assms, of env req]
  by (auto simp: get_preview_image_def split: sum.splits)

lemma labeldesigner_same:
  assumes "same_globals w1 w2"
  shows "fst (labeldesigner w1) = fst (labeldesigner w2)"
  using assms by (simp add: labeldesigner_def same_globals_def)

lemma same_globals_unaffected:
  assumes "same_globals w' w"
  shows "unaffected w w'"
  unfolding unaffected_def
  using assms labeldesigner_same[OF assms] get_preview_image_same[OF assms]
    print_text_same[OF assms] print_grocy_same[OF assms]
  by (simp add: same_globals_def)

text \<open>
  C6. Each of the five endpoints leaves \<^verbatim>\<open>CONFIG\<close>, \<^verbatim>\<open>FONTS\<close> and \<^verbatim>\<open>LABEL_SIZES\<close> as it found
  them, and every later request gets the reply it would have got without the earlier one
  (the libraries answering alike).
\<close>

theorem handlers_keep_globals:
  "unaffected w (snd (index w))
   \<and> unaffected w (snd (labeldesigner w))
   \<and> unaffected w (snd (get_preview_image env req w))
   \<and> unaffected w (snd (print_text env req w))
   \<and> unaffected w (snd (print_grocy env req w))"
proof -
  have refl: "same_globals w w" by (simp add: same_globals_def)
  have 1: "same_globals (snd (index w)) w" by (simp add: index_def refl)
  have 2: "same_globals (snd (labeldesigner w)) w" by (simp add: labeldesigner_def refl)
  have 3: "same_globals (snd (get_preview_image env req w)) w"
    by (simp add: get_preview_image_def emit_extended same_globals_extended refl
        split: sum.splits)
  obtain r1 w1 where p1: "print_text env req w = (r1, w1)" by (cases "print_text env req w")
  obtain r2 w2 where p2: "print_grocy env req w = (r2, w2)" by (cases "print_grocy env req w")
  have 4: "same_globals (snd (print_text env req w)) w"
    using print_text_cases[OF p1] p1 same_globals_extended by auto
  have 5: "same_globals (snd (print_grocy env req w)) w"
    using print_grocy_cases[OF p2] p2 same_globals_extended by auto
  show ?thesis
    using 1 2 3 4 5 by (simp add: same_globals_unaffected)
qed

subsection \<open>Unknown fonts and label sizes\<close>

text \<open>
  Whenever \<^verbatim>\<open>get_label_context\<close> raises a \<^verbatim>\<open>LookupError\<close>, the handler of a print endpoint
  reads \<^verbatim>\<open>e.msg\<close> and leaves with an \<^verbatim>\<open>AttributeError\<close>.
\<close>

lemma lookup_error_leaves_endpoint:
  assumes "get_label_context env w req = Raises e" and "is_LookupError e"
    and "h = print_text \<or> h = print_grocy"
  shows "\<exists>a. h env req w = (Raises (Exn AttributeError a), w)"
  using assms by (cases e) (auto simp: print_text_def print_grocy_def on_context_error_def)

text \<open>
  C1. In the sample installation a request for an unknown font makes \<^verbatim>\<open>get_label_context\<close>
  raise the \<^verbatim>\<open>LookupError\<close>, and one for an unknown label size the \<^verbatim>\<open>KeyError\<close> of line 79;
  both print endpoints then raise \<^verbatim>\<open>AttributeError\<close> instead of returning a dictionary.
\<close>

theorem unknown_font_or_size_raises:
  "get_label_context sample_env sample_world unknown_font = Raises font_error
   \<and> print_text sample_env unknown_font sample_world
       = (Raises (Exn AttributeError
            ([CHR 0x27] @ ''LookupError'' @ [CHR 0x27] @ '' object has no attribute ''
              @ [CHR 0x27] @ ''msg'' @ [CHR 0x27])), sample_world)
   \<and> print_grocy sample_env unknown_font sample_world
       = (Raises (Exn AttributeError
            ([CHR 0x27] @ ''LookupError'' @ [CHR 0x27] @ '' object has no attribute ''
              @ [CHR 0x27] @ ''msg'' @ [CHR 0x27])), sample_world)
   \<and> get_label_context sample_env sample_world unknown_size = Raises (Exn KeyError ''99'')
   \<and> print_text sample_env unknown_size sample_world
       = (Raises (Exn AttributeError
            ([CHR 0x27] @ ''KeyError'' @ [CHR 0x27] @ '' object has no attribute ''
              @ [CHR 0x27] @ ''msg'' @ [CHR 0x27])), sample_world)"
proof -
  have 1: "get_label_context sample_env sample_world unknown_font = Raises font_error"
    by code_simp
  have 2: "get_label_context sample_env sample_world unknown_size = Raises (Exn KeyError ''99'')"
    by code_simp
  show ?thesis
    by (simp add: 1 2 print_text_def print_grocy_def on_context_error_def font_error_def)
qed

subsection \<open>The command line\<close>

lemma getitem_setitem:
  assumes "setitem v k x = Returns v'"
  shows "getitem v' k' = (if k' = k then Returns x else getitem v k')"
  using assms by (cases v) (auto simp: update_conv')

lemma setitem2_get:
  assumes "setitem2 v s k x = Returns v'"
  shows "getitem2 v' s' k' = (if s' = s \<and> k' = k then Returns x else getitem2 v s' k')"
proof -
  obtain d d' where d: "getitem v s = Returns d" "setitem d k x = Returns d'" "setitem v s d' = Returns v'"
    using assms by (auto simp: setitem2_def and_then_Returns)
  show ?thesis
    using getitem_setitem[OF d(3)] getitem_setitem[OF d(2)] d(1)
    by (simp add: getitem2_def)
qed

lemma into_config_get:
  assumes "into_config a c s k = Returns c'"
  shows "getitem2 c' s' k' = (if truthy a \<and> s' = s \<and> k' = k then Returns a else getitem2 c s' k')"
  using assms setitem2_get[of c s k a c' s' k']
  by (auto simp: into_config_def split: if_splits)

lemma from_args_or_Returns:
  "from_args_or a c s k = Returns v \<Longrightarrow>
   Returns v = (if truthy a then Returns a else getitem2 c s k)"
  by (auto simp: from_args_or_def split: if_splits)

text \<open>
  C5, as the code has it. When \<^verbatim>\<open>main\<close> gets through lines 554 to 584: an argument that is
  truthy (a non-empty string, a level other than 0) replaces the printer, the model, the
  default label size and the default orientation of \<^verbatim>\<open>CONFIG\<close>, and gives the port and the
  log level; an argument that is omitted, or supplied but falsy, leaves the entry of the
  configuration file in force.
\<close>

theorem truthy_arguments_override:
  assumes "main_settings a c = Returns st"
  shows "getitem2 (config st) ''PRINTER'' ''PRINTER''
           = (if truthy (printer a) then Returns (printer a) else getitem2 c ''PRINTER'' ''PRINTER'')
     \<and> getitem2 (config st) ''PRINTER'' ''MODEL''
           = (if truthy (model a) then Returns (model a) else getitem2 c ''PRINTER'' ''MODEL'')
     \<and> getitem2 (config st) ''LABEL'' ''DEFAULT_SIZE''
           = (if truthy (default_label_size a) then Returns (default_label_size a)
              else getitem2 c ''LABEL'' ''DEFAULT_SIZE'')
     \<and> getitem2 (config st) ''LABEL'' ''DEFAULT_ORIENTATION''
           = (if truthy (default_orientation a) then Returns (default_orientation a)
              else getitem2 c ''LABEL'' ''DEFAULT_ORIENTATION'')
     \<and> Returns (PORT st)
           = (if truthy (port a) then Returns (port a) else getitem2 c ''SERVER'' ''PORT'')
     \<and> Returns (LOGLEVEL st)
           = (if truthy (loglevel a) then Returns (loglevel a)
              else getitem2 c ''SERVER'' ''LOGLEVEL'')"
proof -
  obtain c1 prt lvl c2 c3 c4 folder where
    c1: "into_config (printer a) c ''PRINTER'' ''PRINTER'' = Returns c1"
    and prt: "from_args_or (port a) c1 ''SERVER'' ''PORT'' = Returns prt"
    and lvl: "from_args_or (loglevel a) c1 ''SERVER'' ''LOGLEVEL'' = Returns lvl"
    and c2: "into_config (model a) c1 ''PRINTER'' ''MODEL'' = Returns c2"
    and c3: "into_config (default_label_size a) c2 ''LABEL'' ''DEFAULT_SIZE'' = Returns c3"
    and c4: "into_config (default_orientation a) c3 ''LABEL'' ''DEFAULT_ORIENTATION'' = Returns c4"
    and st: "st = \<lparr>config = c4, PORT = prt, LOGLEVEL = lvl, debug = equals_ten lvl,
                   ADDITIONAL_FONT_FOLDER = folder\<rparr>"
    using assms unfolding main_settings_def and_then_Returns by auto
  note g1 = into_config_get[OF c1] and g2 = into_config_get[OF c2]
    and g3 = into_config_get[OF c3] and g4 = into_config_get[OF c4]
  have "getitem2 c4 ''PRINTER'' ''PRINTER''
      = (if truthy (printer a) then Returns (printer a) else getitem2 c ''PRINTER'' ''PRINTER'')"
    by (simp add: g1 g2 g3 g4)
  moreover have "getitem2 c4 ''PRINTER'' ''MODEL''
      = (if truthy (model a) then Returns (model a) else getitem2 c ''PRINTER'' ''MODEL'')"
    by (simp add: g1 g2 g3 g4)
  moreover have "getitem2 c4 ''LABEL'' ''DEFAULT_SIZE''
      = (if truthy (default_label_size a) then Returns (default_label_size a)
         else getitem2 c ''LABEL'' ''DEFAULT_SIZE'')"
    by (simp add: g1 g2 g3 g4)
  moreover have "getitem2 c4 ''LABEL'' ''DEFAULT_ORIENTATION''
      = (if truthy (default_orientation a) then Returns (default_orientation a)
         else getitem2 c ''LABEL'' ''DEFAULT_ORIENTATION'')"
    by (simp add: g1 g2 g3 g4)
  moreover have "Returns prt
      = (if truthy (port a) then Returns (port a) else getitem2 c ''SERVER'' ''PORT'')"
    using from_args_or_Returns[OF prt] by (simp add: g1)
  moreover have "Returns lvl
      = (if truthy (loglevel a) then Returns (loglevel a) else getitem2 c ''SERVER'' ''LOGLEVEL'')"
    using from_args_or_Returns[OF lvl] by (simp add: g1)
  ultimately show ?thesis by (simp add: st)
qed

lemma main_some_args:
  "main_settings some_args sample_config =
     Returns \<lparr>config = PyDict
       [(''SERVER'', PyDict [(''PORT'', PyInt 8013), (''HOST'', PyStr []),
                             (''LOGLEVEL'', PyStr ''WARNING''),
                             (''ADDITIONAL_FONT_FOLDER'', PyBool False)]),
        (''PRINTER'', PyDict [(''MODEL'', PyStr ''QL-800''),
                              (''PRINTER'', PyStr ''tcp://10.0.0.5:9100'')]),
        (''LABEL'', PyDict [(''DEFAULT_SIZE'', PyStr ''62''),
                            (''DEFAULT_ORIENTATION'', PyStr ''standard''),
                            (''DEFAULT_FONTS'', PyDict [(''family'', PyStr ''DejaVu Sans''),
                                                        (''style'', PyStr ''Book'')])]),
        (''WEBSITE'', PyDict [(''HTML_TITLE'', PyStr ''Label Designer'')])],
       PORT = PyStr ''8080'', LOGLEVEL = PyInt 10, debug = True,
       ADDITIONAL_FONT_FOLDER = PyBool False\<rparr>"
  by code_simp

lemma main_falsy_args:
  "main_settings falsy_args sample_config =
     Returns \<lparr>config = sample_config, PORT = PyInt 8013, LOGLEVEL = PyStr ''WARNING'',
       debug = False, ADDITIONAL_FONT_FOLDER = PyBool False\<rparr>"
  by code_simp

theorem truthy_arguments_override_witness:
  "(\<exists>st. main_settings some_args sample_config = Returns st
       \<and> getitem2 (config st) ''PRINTER'' ''PRINTER'' = Returns (PyStr ''tcp://10.0.0.5:9100'')
       \<and> getitem2 (config st) ''PRINTER'' ''MODEL'' = Returns (PyStr ''QL-800'')
       \<and> getitem2 (config st) ''LABEL'' ''DEFAULT_SIZE'' = Returns (PyStr ''62'')
       \<and> getitem2 (config st) ''LABEL'' ''DEFAULT_ORIENTATION'' = Returns (PyStr ''standard'')
       \<and> PORT st = PyStr ''8080'' \<and> LOGLEVEL st = PyInt 10)
   \<and> (\<exists>st. main_settings falsy_args sample_config = Returns st
       \<and> getitem2 (config st) ''PRINTER'' ''PRINTER'' = Returns (PyStr ''file:///dev/usb/lp1'')
       \<and> PORT st = PyInt 8013 \<and> LOGLEVEL st = PyStr ''WARNING'')"
proof -
  have 1: "getitem2 sample_config ''LABEL'' ''DEFAULT_SIZE'' = Returns (PyStr ''62'')"
    "getitem2 sample_config ''LABEL'' ''DEFAULT_ORIENTATION'' = Returns (PyStr ''standard'')"
    "getitem2 sample_config ''PRINTER'' ''PRINTER'' = Returns (PyStr ''file:///dev/usb/lp1'')"
    "getitem2 sample_config ''SERVER'' ''PORT'' = Returns (PyInt 8013)"
    "getitem2 sample_config ''SERVER'' ''LOGLEVEL'' = Returns (PyStr ''WARNING'')"
    by code_simp+
  show ?thesis
    using truthy_arguments_override[OF main_some_args] truthy_arguments_override[OF main_falsy_args]
      main_some_args main_falsy_args 1
    by (simp add: some_args_def falsy_args_def no_args_def)
qed

text \<open>
  C5, as stated, fails: the printer argument \<^verbatim>\<open>""\<close> and the level \<^verbatim>\<open>NOTSET\<close> are supplied, and
  the printer and the log level of the configuration file stay in force.
\<close>

theorem supplied_but_falsy_counterexample:
  "printer falsy_args \<noteq> PyBool False \<and> loglevel falsy_args \<noteq> PyBool False
   \<and> (\<exists>st. main_settings falsy_args sample_config = Returns st
          \<and> getitem2 (config st) ''PRINTER'' ''PRINTER'' \<noteq> Returns (printer falsy_args)
          \<and> LOGLEVEL st \<noteq> loglevel falsy_args)"
proof -
  have given: "printer falsy_args = PyStr []" "loglevel falsy_args = PyInt 0"
    by (simp_all add: falsy_args_def no_args_def)
  have "getitem2 sample_config ''PRINTER'' ''PRINTER'' = Returns (PyStr ''file:///dev/usb/lp1'')"
    by code_simp
  then have "\<exists>st. main_settings falsy_args sample_config = Returns st
          \<and> getitem2 (config st) ''PRINTER'' ''PRINTER'' \<noteq> Returns (printer falsy_args)
          \<and> LOGLEVEL st \<noteq> loglevel falsy_args"
    unfolding main_falsy_args given by simp
  then show ?thesis using given by simp
qed

subsection \<open>The preview\<close>

text \<open>Decoding undoes encoding.\<close>

lemma index_of_nth:
  "distinct xs \<Longrightarrow> i < length xs \<Longrightarrow> index_of (xs ! i) xs = Some i"
proof (induction xs arbitrary: i)
  case Nil
  then show ?case by simp
next
  case (Cons x xs)
  then show ?case by (cases i) auto
qed

lemma b64_alphabet_distinct: "distinct b64_alphabet"
  by (simp add: b64_alphabet_def)

lemma b64_alphabet_length: "length b64_alphabet = 64"
  by (simp add: b64_alphabet_def)


lemma b64_value_char: "i < 64 \<Longrightarrow> b64_value (b64_char i) = Some i"
  by (simp add: b64_value_def b64_char_def index_of_nth b64_alphabet_distinct b64_alphabet_length)

lemma b64_char_not_pad: "i < 64 \<Longrightarrow> b64_char i \<noteq> CHR ''=''"
proof -
  assume "i < 64"
  then have "b64_char i \<in> set b64_alphabet"
    by (simp add: b64_char_def b64_alphabet_length)
  moreover have "CHR ''='' \<notin> set b64_alphabet" by (simp add: b64_alphabet_def)
  ultimately show ?thesis by auto
qed

lemma byte_bound: "(of_char (x :: char) :: nat) < 256"
proof -
  have "(of_char x :: nat) mod 256 = of_char x" by (rule of_char_mod_256)
  then show ?thesis by (metis mod_less_divisor zero_less_numeral)
qed


lemma sextet_bounds:
  fixes a b c :: nat
  assumes "a < 256" "b < 256" "c < 256"
  shows "a div 4 < 64" "a mod 4 * 16 + b div 16 < 64" "b mod 16 * 4 + c div 64 < 64"
    "c mod 64 < 64" "a mod 4 * 16 < 64" "b mod 16 * 4 < 64"
proof -
  have "a mod 4 < 4" "b mod 16 < 16" "b div 16 < 16" "c div 64 < 4"
    using assms by simp_all
  then show "a div 4 < 64" "a mod 4 * 16 + b div 16 < 64" "b mod 16 * 4 + c div 64 < 64"
    "c mod 64 < 64" "a mod 4 * 16 < 64" "b mod 16 * 4 < 64"
    using assms by simp_all
qed

lemma regroup:
  fixes x y :: nat
  assumes "0 < n" "y < n"
  shows "(x * n + y) div n = x" "(x * n + y) mod n = y"
  using assms by simp_all

lemma octets:
  fixes a b c :: nat
  assumes "a < 256" "b < 256" "c < 256"
  shows "a div 4 * 4 + (a mod 4 * 16 + b div 16) div 16 = a"
    "(a mod 4 * 16 + b div 16) mod 16 * 16 + (b mod 16 * 4 + c div 64) div 4 = b"
    "(b mod 16 * 4 + c div 64) mod 4 * 64 + c mod 64 = c"
    "a div 4 * 4 + (a mod 4 * 16) div 16 = a"
    "(a mod 4 * 16) mod 16 = 0"
    "(a mod 4 * 16 + b div 16) mod 16 * 16 + (b mod 16 * 4) div 4 = b"
    "(b mod 16 * 4) mod 4 = 0"
proof -
  have b16: "b div 16 < 16" and c64: "c div 64 < 4" using assms by simp_all
  show "a div 4 * 4 + (a mod 4 * 16 + b div 16) div 16 = a"
    using regroup(1)[of 16 "b div 16" "a mod 4"] b16 by simp
  show "(a mod 4 * 16 + b div 16) mod 16 * 16 + (b mod 16 * 4 + c div 64) div 4 = b"
    using regroup(2)[of 16 "b div 16" "a mod 4"] regroup(1)[of 4 "c div 64" "b mod 16"] b16 c64
    by simp
  show "(b mod 16 * 4 + c div 64) mod 4 * 64 + c mod 64 = c"
    using regroup(2)[of 4 "c div 64" "b mod 16"] c64 by simp
  show "a div 4 * 4 + (a mod 4 * 16) div 16 = a" by simp
  show "(a mod 4 * 16) mod 16 = 0" by simp
  show "(a mod 4 * 16 + b div 16) mod 16 * 16 + (b mod 16 * 4) div 4 = b"
    using regroup(2)[of 16 "b div 16" "a mod 4"] b16 by simp
  show "(b mod 16 * 4) mod 4 = 0" by simp
qed


lemma b64encode_empty: "b64encode bs = [] \<longleftrightarrow> bs = []"
  by (cases bs rule: b64encode.cases) (simp_all add: Let_def)

lemma b64decode_group:
  assumes "rest \<noteq> []"
    and "b64_value p = Some i" "b64_value q = Some j" "b64_value r = Some k" "b64_value s = Some l"
  shows "b64decode (p # q # r # s # rest) =
    map_option (\<lambda>bs. [char_of (i * 4 + j div 16), char_of (j mod 16 * 16 + k div 4),
                      char_of (k mod 4 * 64 + l)] @ bs) (b64decode rest)"
  using assms by (cases rest) (auto intro!: option.map_cong)

lemma b64decode_last:
  assumes "r \<noteq> CHR ''=''" "s \<noteq> CHR ''=''"
    and "b64_value p = Some i" "b64_value q = Some j" "b64_value r = Some k" "b64_value s = Some l"
  shows "b64decode [p, q, r, s] =
    Some [char_of (i * 4 + j div 16), char_of (j mod 16 * 16 + k div 4),
          char_of (k mod 4 * 64 + l)]"
  using assms by simp

lemma b64decode_encode: "b64decode (b64encode bs) = Some bs"
proof (induction bs rule: b64encode.induct)
  case 1
  show ?case by simp
next
  case (2 x)
  define a :: nat where "a = of_char x"
  have a: "a < 256" unfolding a_def by (rule byte_bound)
  note sb = sextet_bounds[OF a a a] and oc = octets[OF a a a]
  have "char_of a = x" by (simp add: a_def)
  then show ?case
    using sb(1,5) oc(4,5)
    by (simp add: Let_def a_def[symmetric] b64_value_char)
next
  case (3 x y)
  define a :: nat where "a = of_char x"
  define b :: nat where "b = of_char y"
  have a: "a < 256" and b: "b < 256" unfolding a_def b_def by (rule byte_bound)+
  note sb = sextet_bounds[OF a b b] and oc = octets[OF a b b]
  have "char_of a = x" "char_of b = y" by (simp_all add: a_def b_def)
  then show ?case
    using sb(1,2,6) oc(1,6,7) b64_char_not_pad[OF sb(6)]
    by (simp add: Let_def a_def[symmetric] b_def[symmetric] b64_value_char)
next
  case (4 x y z rest)
  define a :: nat where "a = of_char x"
  define b :: nat where "b = of_char y"
  define c :: nat where "c = of_char z"
  have a: "a < 256" and b: "b < 256" and c: "c < 256"
    unfolding a_def b_def c_def by (rule byte_bound)+
  note sb = sextet_bounds[OF a b c] and oc = octets[OF a b c]
  have ch: "char_of a = x" "char_of b = y" "char_of c = z" by (simp_all add: a_def b_def c_def)
  have enc: "b64encode (x # y # z # rest) =
      b64_char (a div 4) # b64_char (a mod 4 * 16 + b div 16)
        # b64_char (b mod 16 * 4 + c div 64) # b64_char (c mod 64) # b64encode rest"
    by (simp add: Let_def a_def b_def c_def)
  note v = b64_value_char[OF sb(1)] b64_value_char[OF sb(2)] b64_value_char[OF sb(3)]
    b64_value_char[OF sb(4)]
  show ?case
  proof (cases "rest = []")
    case True
    show ?thesis
      unfolding enc using True ch oc(1,2,3)
        b64decode_last[OF b64_char_not_pad[OF sb(3)] b64_char_not_pad[OF sb(4)] v]
      by simp
  next
    case False
    then have "b64encode rest \<noteq> []" by (simp add: b64encode_empty)
    from b64decode_group[OF this v] show ?thesis
      unfolding enc using "4.IH" ch oc(1,2,3) by simp
  qed
qed

text \<open>
  C9. Two preview requests with the same label context, one asking for
  \<^verbatim>\<open>return_format=base64\<close> and one not, the second answered with an image: the first is
  answered too, as \<^verbatim>\<open>text/plain\<close>, its body is the base64 encoding of the PNG body of the
  second, and decoding it gives those bytes back.
\<close>

theorem preview_base64_encodes_png:
  assumes "get_label_context env w1 r1 = Returns ctx"
    and "get_label_context env w2 r2 = Returns ctx"
    and "query r1 ''return_format'' = Some ''base64''"
    and "query r2 ''return_format'' \<noteq> Some ''base64''"
    and "fst (get_preview_image env r2 w2) = Returns png"
  shows "\<exists>txt. fst (get_preview_image env r1 w1) = Returns txt
           \<and> content_type txt = ''text/plain'' \<and> content_type png = ''image/png''
           \<and> body txt = b64encode (body png)
           \<and> b64decode (body txt) = Some (body png)"
proof -
  have f2: "get_or (query r2) ''return_format'' ''png'' \<noteq> ''base64''"
    using assms(4) by (cases "query r2 ''return_format''") (simp_all add: get_or_def)
  have f1: "get_or (query r1) ''return_format'' ''png'' = ''base64''"
    using assms(3) by (simp add: get_or_def)
  obtain im b where im: "create_label_im env (label_text ctx) ctx = Returns im"
    and b: "image_to_png_bytes env im = Returns b"
    and png: "png = \<lparr>content_type = ''image/png'', body = b\<rparr>"
    using assms(2,5) f2
    by (auto simp: get_preview_image_def and_then_Returns split: sum.splits)
  have "fst (get_preview_image env r1 w1)
      = Returns \<lparr>content_type = ''text/plain'', body = b64encode b\<rparr>"
    using assms(1) f1 im b by (simp add: get_preview_image_def)
  then show ?thesis using png by (simp add: b64decode_encode)
qed

lemma preview_hello:
  "get_preview_image sample_env hello sample_world =
     (Returns \<lparr>content_type = ''image/png'', body = ''PNG''\<rparr>,
      sample_world\<lparr>trace := [Render Label_im]\<rparr>)"
  by code_simp

lemma context_hello:
  "get_label_context sample_env sample_world hello
   = Returns (sample_context ''50'' ''standard'' ENDLESS_LABEL 554 0 (Some ''Hello''))"
  by code_simp

lemma context_hello_base64:
  "get_label_context sample_env sample_world hello_base64
   = Returns (sample_context ''50'' ''standard'' ENDLESS_LABEL 554 0 (Some ''Hello''))"
  by code_simp

theorem preview_base64_encodes_png_witness:
  "get_preview_image sample_env hello sample_world =
     (Returns \<lparr>content_type = ''image/png'', body = ''PNG''\<rparr>,
      sample_world\<lparr>trace := [Render Label_im]\<rparr>)
   \<and> query hello_base64 ''return_format'' = Some ''base64''
   \<and> query hello ''return_format'' = None
   \<and> (\<exists>txt. fst (get_preview_image sample_env hello_base64 sample_world) = Returns txt
           \<and> content_type txt = ''text/plain''
           \<and> body txt = b64encode ''PNG''
           \<and> b64decode (body txt) = Some ''PNG'')"
proof -
  have q1: "query hello_base64 ''return_format'' = Some ''base64''"
    by (simp add: hello_base64_def)
  have q2: "query hello ''return_format'' \<noteq> Some ''base64''"
    by (simp add: hello_def form_def)
  have p: "fst (get_preview_image sample_env hello sample_world)
      = Returns \<lparr>content_type = ''image/png'', body = ''PNG''\<rparr>"
    by (simp add: preview_hello)
  show ?thesis
    using preview_base64_encodes_png[OF context_hello_base64 context_hello q1 q2 p]
      preview_hello q1
    by (simp add: hello_def form_def)
qed

end
